theory Spec2Isabelle
  imports Complex_Main
begin

section \<open>The relational store\<close>

text \<open>
  The two timer functions of the repository share one SQL Server database with the tables
  \<open>weather_data\<close> (written by \<open>weatherTrigger\<close>, read and purged by
  \<open>dailyAggregation\<close>) and \<open>daily_weather_summary\<close>. The model keeps both
  tables as row lists in insertion order, together with the identity counter of
  \<open>weather_data\<close>.

  Modelling decisions that are not visible in the JavaScript sources:
  \<^item> SQL \<open>FLOAT\<close> values and JavaScript numbers are exact rationals; the rounding
    error of binary floating point is not modelled.
  \<^item> A calendar date is the number of whole days since 1970-01-01.
  \<^item> A \<open>datetimeoffset\<close> value is its UTC instant in milliseconds together with the
    offset in minutes; \<open>CONVERT(date, t)\<close> is the date of its local clock face.
  \<^item> City names and weather labels are compared by plain string equality.
  \<^item> The numeric columns of \<open>weather_data\<close> are not nullable: an insert that binds a
    missing number (which the driver sends as NULL) is rejected by the store.
  \<^item> Identity values are unbounded integers.
  \<^item> Each function runs alone: no other writer touches the store during one invocation.
\<close>

type_synonym day = int

datatype datetimeoffset = DateTimeOffset (utc_ms: int) (offset_min: int)

definition CONVERT_date :: "datetimeoffset \<Rightarrow> day" where
  "CONVERT_date t = (utc_ms t + offset_min t * 60000) div 86400000"

record weather_row =
  w_id :: int
  w_city :: string
  w_temperature :: rat
  w_feels_like :: rat
  w_pressure :: int
  w_humidity :: int
  w_weather :: string
  w_timestamp :: datetimeoffset

record summary_row =
  s_city :: string
  s_date :: day
  avg_temp :: rat
  min_temp :: rat
  max_temp :: rat
  dominant_weather :: "string option"
  avg_feels_like :: rat
  avg_pressure :: rat
  avg_humidity :: rat
  record_count :: nat

text \<open>
  \<open>ident_current\<close> is \<open>IDENT_CURRENT('weather_data')\<close>, the last identity value
  handed out or set by a reseed; \<open>ident_incr\<close> is the increment of the identity column
  (the table definition is not part of the repository, so it is a field of the store).
  Once a row has ever been inserted, the next generated id is the current value plus the
  increment, also directly after \<open>DBCC CHECKIDENT (..., RESEED, v)\<close>.
\<close>

record database =
  weather_data :: "weather_row list"
  ident_current :: int
  ident_incr :: int
  daily_weather_summary :: "summary_row list"

definition next_identity :: "database \<Rightarrow> int" where
  "next_identity db = ident_current db + ident_incr db"

section \<open>dailyAggregation (src/unnamed/part\_000)\<close>

subsection \<open>Faults, outcomes and the trace of statements\<close>

text \<open>
  Every awaited call of the handler can reject. A \<open>step\<close> names one such call; the
  environment lists the steps that reject in this invocation. The handler returns its
  outcome, the store it leaves behind and the steps it attempted, in order.
\<close>

datatype step =
    Connect
  | InitialDataQuery
  | CheckDataQuery
  | AggregationQuery string
  | VerifyQuery
  | Begin
  | CountQuery
  | DeleteQuery
  | ResetIdentityQuery
  | Commit
  | FinalStateQuery
  | Rollback
  | Close

datatype outcome = Returned | Raised step

record agg_env =
  now :: int
  faults :: "step list"
  tie_order :: "string list"

definition fails :: "agg_env \<Rightarrow> step \<Rightarrow> bool" where
  "fails e s = (s \<in> set (faults e))"

subsection \<open>The target date\<close>

text \<open>
  \<^verbatim>\<open>const ist = new Date(new Date().getTime() + (5.5 * 60 * 60 * 1000));\<close>
  \<^verbatim>\<open>ist.setDate(ist.getDate() - 1);\<close>
  \<^verbatim>\<open>const yesterdayIST = ist.toISOString().split('T')[0];\<close>
  \<open>setDate\<close> works on the local clock of the process; in a zone without clock changes
  (Azure Functions run in UTC) it moves the instant back by exactly one day.
\<close>

definition yesterdayIST :: "int \<Rightarrow> day" where
  "yesterdayIST t = (t + 19800000 - 86400000) div 86400000"

subsection \<open>The queries\<close>

definition on_date :: "day \<Rightarrow> weather_row \<Rightarrow> bool" where
  \<comment> \<open>\<^verbatim>\<open>WHERE CONVERT(date, timestamp) = @yesterday\<close>\<close>
  "on_date d w = (CONVERT_date (w_timestamp w) = d)"

definition for_city :: "day \<Rightarrow> string \<Rightarrow> weather_row \<Rightarrow> bool" where
  \<comment> \<open>\<^verbatim>\<open>WHERE CONVERT(date, w.timestamp) = @yesterday AND w.city = @city\<close>\<close>
  "for_city d c w = (on_date d w \<and> w_city w = c)"

definition checkDataQuery :: "day \<Rightarrow> weather_row list \<Rightarrow> string list" where
  \<comment> \<open>\<^verbatim>\<open>SELECT city, ... FROM weather_data WHERE ... GROUP BY city\<close>: one record per city;
      the handler reads only \<open>cityData.city\<close>.\<close>
  "checkDataQuery d wd = remdups (map w_city (filter (on_date d) wd))"

text \<open>
  \<open>WeatherCounts\<close>: one group per weather label with its \<open>COUNT(*)\<close>, listed by
  \<open>ROW_NUMBER() OVER (ORDER BY COUNT(*) DESC)\<close>, so the element at position \<open>i\<close> has
  \<open>rn = i + 1\<close>. SQL leaves the order among equal counts to the engine: the model takes
  it from \<open>tie_order\<close> (labels listed there come first, in that order), which can put any
  of the tied labels first.
\<close>

fun tie_key :: "string list \<Rightarrow> string \<Rightarrow> nat" where
  "tie_key [] l = 0"
| "tie_key (x # xs) l = (if x = l then 0 else Suc (tie_key xs l))"

definition WeatherCounts :: "string list \<Rightarrow> day \<Rightarrow> string \<Rightarrow> weather_row list \<Rightarrow> (string \<times> nat) list" where
  "WeatherCounts tie d c wd =
     (let labels = map w_weather (filter (for_city d c) wd);
          groups = map (\<lambda>l. (l, count_list labels l)) (remdups labels)
      in sort_key (\<lambda>g. - int (snd g)) (sort_key (\<lambda>g. tie_key tie (fst g)) groups))"

definition top1_weather :: "(string \<times> nat) list \<Rightarrow> string option" where
  \<comment> \<open>\<^verbatim>\<open>(SELECT TOP 1 weather FROM WeatherCounts WHERE rn = 1)\<close>; NULL without a group\<close>
  "top1_weather gs = (case gs of [] \<Rightarrow> None | g # _ \<Rightarrow> Some (fst g))"

definition ROUND_2 :: "rat \<Rightarrow> rat" where
  \<comment> \<open>\<^verbatim>\<open>ROUND(x, 2)\<close>: to the nearest hundredth, halves away from zero\<close>
  "ROUND_2 x =
     (if 0 \<le> x then of_int \<lfloor>x * 100 + 1 / 2\<rfloor> / 100
      else - (of_int \<lfloor>- x * 100 + 1 / 2\<rfloor> / 100))"

definition AVG_agg :: "rat list \<Rightarrow> rat" where
  \<comment> \<open>\<^verbatim>\<open>AVG(CAST(col AS FLOAT))\<close> over the rows of one group\<close>
  "AVG_agg xs = sum_list xs / of_nat (length xs)"

definition MIN_agg :: "rat \<Rightarrow> rat list \<Rightarrow> rat" where
  "MIN_agg x xs = fold min xs x"

definition MAX_agg :: "rat \<Rightarrow> rat list \<Rightarrow> rat" where
  "MAX_agg x xs = fold max xs x"

definition aggregationQuery :: "string list \<Rightarrow> day \<Rightarrow> string \<Rightarrow> weather_row list \<Rightarrow> summary_row list" where
  \<comment> \<open>The rows the \<open>INSERT ... SELECT ... GROUP BY w.city\<close> adds: one for the single group
      of the city, none when the city has no row on the date.\<close>
  "aggregationQuery tie d c wd =
     (case filter (for_city d c) wd of
        [] \<Rightarrow> []
      | w # ws \<Rightarrow>
          [\<lparr> s_city = c,
             s_date = d,
             avg_temp = ROUND_2 (AVG_agg (map w_temperature (w # ws))),
             min_temp = MIN_agg (w_temperature w) (map w_temperature ws),
             max_temp = MAX_agg (w_temperature w) (map w_temperature ws),
             dominant_weather = top1_weather (WeatherCounts tie d c wd),
             avg_feels_like = ROUND_2 (AVG_agg (map w_feels_like (w # ws))),
             avg_pressure = ROUND_2 (AVG_agg (map (\<lambda>r. of_int (w_pressure r)) (w # ws))),
             avg_humidity = ROUND_2 (AVG_agg (map (\<lambda>r. of_int (w_humidity r)) (w # ws))),
             record_count = length (w # ws) \<rparr>])"

definition deleteQuery :: "day \<Rightarrow> database \<Rightarrow> database" where
  \<comment> \<open>\<^verbatim>\<open>DELETE FROM weather_data WHERE CONVERT(date, timestamp) = @yesterday\<close>\<close>
  "deleteQuery d db = db\<lparr>weather_data := filter (\<lambda>w. \<not> on_date d w) (weather_data db)\<rparr>"

definition NewSeed :: "weather_row list \<Rightarrow> int" where
  \<comment> \<open>\<^verbatim>\<open>SELECT @NewSeed = ISNULL(MIN(id), 0) - 1 FROM weather_data\<close>\<close>
  "NewSeed wd = (case map w_id wd of [] \<Rightarrow> 0 | i # is \<Rightarrow> fold min is i) - 1"

definition resetIdentityQuery :: "database \<Rightarrow> database" where
  \<comment> \<open>\<^verbatim>\<open>DBCC CHECKIDENT ('weather_data', RESEED, @NewSeed)\<close>\<close>
  "resetIdentityQuery db = db\<lparr>ident_current := NewSeed (weather_data db)\<rparr>"

subsection \<open>The handler\<close>

text \<open>
  The loop \<^verbatim>\<open>for (const cityData of dataCheck.recordset)\<close>: one insert per city, in the
  order of the record set; a rejected insert leaves the loop with the exception.
\<close>

fun summarize :: "agg_env \<Rightarrow> day \<Rightarrow> string list \<Rightarrow> database \<Rightarrow> step option \<times> database \<times> step list" where
  "summarize e d [] db = (None, db, [])"
| "summarize e d (c # cs) db =
     (if fails e (AggregationQuery c) then (Some (AggregationQuery c), db, [AggregationQuery c])
      else
        let db' = db\<lparr>daily_weather_summary :=
                     daily_weather_summary db @ aggregationQuery (tie_order e) d c (weather_data db)\<rparr>;
            (r, db'', tr) = summarize e d cs db'
        in (r, db'', AggregationQuery c # tr))"

text \<open>
  The inner \<open>catch\<close>: \<^verbatim>\<open>await transaction.rollback(); ...; throw err;\<close>. The statements
  of the open transaction are undone, so the store is the one the transaction started
  from; when the rollback itself rejects, its exception replaces \<open>err\<close>.
\<close>

definition rolled_back :: "agg_env \<Rightarrow> step \<Rightarrow> database \<Rightarrow> step list \<Rightarrow> outcome \<times> database \<times> step list" where
  "rolled_back e s db tr =
     (if fails e Rollback then Raised Rollback else Raised s, db, tr @ [Rollback])"

text \<open>
  The inner \<open>try\<close>, from the count to the final-state query. The final-state query runs
  after the commit but still inside the \<open>try\<close>: when it rejects, \<open>rollback\<close> is called
  on a transaction that is already committed, the \<open>mssql\<close> transaction object rejects
  that call, and the purge stays.
\<close>

definition purge :: "agg_env \<Rightarrow> day \<Rightarrow> database \<Rightarrow> outcome \<times> database \<times> step list" where
  "purge e d db =
     (if fails e CountQuery then rolled_back e CountQuery db [CountQuery]
      else if fails e DeleteQuery then rolled_back e DeleteQuery db [CountQuery, DeleteQuery]
      else if fails e ResetIdentityQuery
        then rolled_back e ResetIdentityQuery db [CountQuery, DeleteQuery, ResetIdentityQuery]
      else if fails e Commit
        then rolled_back e Commit db [CountQuery, DeleteQuery, ResetIdentityQuery, Commit]
      else
        let db' = resetIdentityQuery (deleteQuery d db) in
        if fails e FinalStateQuery
          then (Raised Rollback, db',
                [CountQuery, DeleteQuery, ResetIdentityQuery, Commit, FinalStateQuery, Rollback])
        else (Returned, db', [CountQuery, DeleteQuery, ResetIdentityQuery, Commit, FinalStateQuery]))"

definition connected :: "agg_env \<Rightarrow> day \<Rightarrow> database \<Rightarrow> outcome \<times> database \<times> step list" where
  \<comment> \<open>the outer \<open>try\<close> after \<open>sql.connect\<close> has resolved\<close>
  "connected e d db =
     (if fails e InitialDataQuery then (Raised InitialDataQuery, db, [InitialDataQuery])
      else if fails e CheckDataQuery
        then (Raised CheckDataQuery, db, [InitialDataQuery, CheckDataQuery])
      else
        let recordset = checkDataQuery d (weather_data db) in
        if recordset = [] then (Returned, db, [InitialDataQuery, CheckDataQuery])
        else
          (case summarize e d recordset db of
             (Some s, db', tr) \<Rightarrow> (Raised s, db', [InitialDataQuery, CheckDataQuery] @ tr)
           | (None, db', tr) \<Rightarrow>
               if fails e VerifyQuery
                 then (Raised VerifyQuery, db', [InitialDataQuery, CheckDataQuery] @ tr @ [VerifyQuery])
               else if fails e Begin
                 then (Raised Begin, db',
                       [InitialDataQuery, CheckDataQuery] @ tr @ [VerifyQuery, Begin])
               else
                 let (r, db'', tr') = purge e d db'
                 in (r, db'', [InitialDataQuery, CheckDataQuery] @ tr @ [VerifyQuery, Begin] @ tr')))"

definition dailyAggregation :: "agg_env \<Rightarrow> database \<Rightarrow> outcome \<times> database \<times> step list" where
  \<comment> \<open>\<open>finally\<close>: the pool is closed when \<open>sql.connect\<close> had resolved; a rejected close
      replaces the outcome.\<close>
  "dailyAggregation e db =
     (if fails e Connect then (Raised Connect, db, [Connect])
      else
        let (r, db', tr) = connected e (yesterdayIST (now e)) db
        in (if fails e Close then Raised Close else r, db', Connect # tr @ [Close]))"

section \<open>weatherTrigger (src/src/functions/weatherTrigger.js)\<close>

subsection \<open>Configuration and the API payload\<close>

record city =
  name :: string
  lat :: rat
  lon :: rat

definition cities :: "city list" where
  "cities =
     [\<lparr>name = ''Delhi'', lat = 287041 / 10000, lon = 771025 / 10000\<rparr>,
      \<lparr>name = ''Mumbai'', lat = 190760 / 10000, lon = 728777 / 10000\<rparr>,
      \<lparr>name = ''Chennai'', lat = 130827 / 10000, lon = 802707 / 10000\<rparr>,
      \<lparr>name = ''Bangalore'', lat = 129716 / 10000, lon = 775946 / 10000\<rparr>,
      \<lparr>name = ''Kolkata'', lat = 225726 / 10000, lon = 883639 / 10000\<rparr>,
      \<lparr>name = ''Hyderabad'', lat = 173850 / 10000, lon = 784867 / 10000\<rparr>]"

text \<open>
  The JSON body of the weather API, as far as the Collector looks at it: the object
  \<open>main\<close> with up to four numbers, and the array \<open>weather\<close> whose elements may carry
  a string \<open>main\<close>. A member that is missing is \<open>None\<close>; the body \<open>{"main": {}}\<close>
  has a \<open>main\<close> object all of whose numbers are \<open>None\<close>. \<open>data_dt\<close> is the member
  \<open>dt\<close> of the body, the instant of the observation as the API reports it (seconds since
  1970-01-01 UTC); no line of the Collector reads it.
\<close>

record main_obj =
  temp :: "rat option"
  feels_like :: "rat option"
  pressure :: "rat option"
  humidity :: "rat option"

datatype weather_elem = WeatherElem (elem_main: "string option")

record response_data =
  data_main :: "main_obj option"
  data_weather :: "weather_elem list option"
  data_dt :: int

text \<open>
  What \<^verbatim>\<open>await axios.get(url, { timeout: 5000 })\<close> settles with: a rejection (timeout,
  a status outside 2xx, no connection), or a response whose \<open>data\<close> may be empty.
\<close>

datatype axios_error = Timeout | BadStatus nat | NetworkError

datatype axios_result = Rejected axios_error | Response "response_data option"

text \<open>
  The object \<open>fetchWeatherData\<close> returns. \<open>p_timestamp\<close> stands for the ISO text of
  \<^verbatim>\<open>new Date().toISOString()\<close>: the instant in milliseconds since 1970-01-01 UTC, which
  \<^verbatim>\<open>new Date(params.timestamp)\<close> reads back unchanged. A number that the body did not
  give is \<open>undefined\<close> in the object, here \<open>None\<close>.
\<close>

record params =
  p_city :: string
  p_temperature :: "rat option"
  p_feels_like :: "rat option"
  p_pressure :: "rat option"
  p_humidity :: "rat option"
  p_weather :: string
  p_timestamp :: int

text \<open>
  The surroundings of one invocation: the configured key, what the API answers for each
  city, what the clock of the process reads when that answer is handled, the cities whose
  insert request the store rejects, and the offset (in minutes) of the local zone of the
  process, which the driver attaches to a \<open>Date\<close> bound as \<open>sql.DateTimeOffset\<close>.
\<close>

record collector_env =
  apiKey :: "string option"
  axios_get :: "city \<Rightarrow> axios_result"
  clock :: "city \<Rightarrow> int"
  insert_faults :: "string list"
  tz_offset_min :: int

datatype trigger_error = ApiKeyMissing | InsertRejected string

datatype trigger_outcome = Completed | Threw trigger_error

subsection \<open>fetchWeatherData\<close>

definition weather_label :: "weather_elem list \<Rightarrow> string" where
  \<comment> \<open>\<^verbatim>\<open>response.data.weather[0]?.main || 'Unknown'\<close>, for a \<open>weather\<close> that is an array\<close>
  "weather_label ws =
     (case ws of
        [] \<Rightarrow> ''Unknown''
      | w # _ \<Rightarrow>
          (case elem_main w of
             None \<Rightarrow> ''Unknown''
           | Some l \<Rightarrow> if l = [] then ''Unknown'' else l))"

definition fetchWeatherData :: "city \<Rightarrow> axios_result \<Rightarrow> int \<Rightarrow> params option" where
  \<comment> \<open>\<open>None\<close> is the \<open>null\<close> of the \<open>catch\<close> branch. Indexing a missing \<open>weather\<close> throws a
      TypeError inside the \<open>try\<close>, so that case ends in the \<open>catch\<close> branch as well.\<close>
  "fetchWeatherData c res t =
     (case res of
        Rejected _ \<Rightarrow> None
      | Response None \<Rightarrow> None
      | Response (Some d) \<Rightarrow>
          (case data_main d of
             None \<Rightarrow> None
           | Some m \<Rightarrow>
               (case data_weather d of
                  None \<Rightarrow> None
                | Some ws \<Rightarrow>
                    Some \<lparr> p_city = name c,
                           p_temperature = temp m,
                           p_feels_like = feels_like m,
                           p_pressure = pressure m,
                           p_humidity = humidity m,
                           p_weather = weather_label ws,
                           p_timestamp = t \<rparr>)))"

subsection \<open>insertWeatherData\<close>

definition istOffset :: int where
  \<comment> \<open>\<^verbatim>\<open>5.5 * 60 * 60 * 1000\<close>\<close>
  "istOffset = 19800000"

text \<open>
  A value bound as \<open>sql.Int\<close>: the driver rejects a number outside the 32-bit range and
  otherwise sends its integer part (truncation towards zero).
\<close>

definition sql_Int :: "rat \<Rightarrow> int option" where
  "sql_Int v =
     (if v < - 2147483648 \<or> 2147483647 < v then None
      else Some (if 0 \<le> v then \<lfloor>v\<rfloor> else \<lceil>v\<rceil>))"

text \<open>
  The flag is \<open>True\<close> when the promise resolves and \<open>False\<close> when it rejects (the
  \<open>catch\<close> logs and re-throws). A rejected insert adds no row. The new row gets the next
  identity value. An \<open>undefined\<close> number is bound as NULL, which the numeric columns do
  not take; a pressure or humidity outside the 32-bit range is refused by the driver.
\<close>

definition insertWeatherData :: "collector_env \<Rightarrow> params \<Rightarrow> database \<Rightarrow> bool \<times> database" where
  "insertWeatherData e p db =
     (if p_city p \<in> set (insert_faults e) then (False, db)
      else
        (case p_temperature p of
           None \<Rightarrow> (False, db)
         | Some te \<Rightarrow>
        (case p_feels_like p of
           None \<Rightarrow> (False, db)
         | Some fe \<Rightarrow>
        (case p_pressure p of
           None \<Rightarrow> (False, db)
         | Some pv \<Rightarrow>
        (case p_humidity p of
           None \<Rightarrow> (False, db)
         | Some hv \<Rightarrow>
        (case sql_Int pv of
           None \<Rightarrow> (False, db)
         | Some pr \<Rightarrow>
        (case sql_Int hv of
           None \<Rightarrow> (False, db)
         | Some hu \<Rightarrow>
             (True,
              db\<lparr> weather_data := weather_data db @
                    [\<lparr> w_id = next_identity db,
                       w_city = p_city p,
                       w_temperature = te,
                       w_feels_like = fe,
                       w_pressure = pr,
                       w_humidity = hu,
                       w_weather = p_weather p,
                       w_timestamp = DateTimeOffset (p_timestamp p + istOffset) (tz_offset_min e) \<rparr>],
                  ident_current := next_identity db \<rparr>))))))))"

subsection \<open>The handler\<close>

text \<open>
  \<^verbatim>\<open>await Promise.all(validWeatherData.map(data => insertWeatherData(data, context)))\<close>:
  every insert is started, whatever happens to the others; the result is the store after
  all of them have settled and the city of the first rejected one, if any. The inserts
  run concurrently; the model settles them in list order.
\<close>

fun insert_all :: "collector_env \<Rightarrow> params list \<Rightarrow> database \<Rightarrow> string option \<times> database" where
  "insert_all e [] db = (None, db)"
| "insert_all e (p # ps) db =
     (let (ok, db') = insertWeatherData e p db;
          (r, db'') = insert_all e ps db'
      in (if ok then r else Some (p_city p), db''))"

definition weatherDataResults :: "collector_env \<Rightarrow> params option list" where
  \<comment> \<open>\<^verbatim>\<open>await Promise.all(cities.map(city => fetchWeatherData(city, context)))\<close>\<close>
  "weatherDataResults e = map (\<lambda>c. fetchWeatherData c (axios_get e c) (clock e c)) cities"

definition validWeatherData :: "collector_env \<Rightarrow> params list" where
  \<comment> \<open>\<^verbatim>\<open>weatherDataResults.filter(data => data !== null)\<close>\<close>
  "validWeatherData e = map the (filter (\<lambda>r. r \<noteq> None) (weatherDataResults e))"

definition weatherTrigger :: "collector_env \<Rightarrow> database \<Rightarrow> trigger_outcome \<times> database" where
  "weatherTrigger e db =
     (if apiKey e = None \<or> apiKey e = Some [] then (Threw ApiKeyMissing, db)
      else if validWeatherData e = [] then (Completed, db)
      else
        (case insert_all e (validWeatherData e) db of
           (None, db') \<Rightarrow> (Completed, db')
         | (Some c, db') \<Rightarrow> (Threw (InsertRejected c), db')))"

section \<open>Notions used in the statements\<close>

text \<open>
  The arithmetic mean of a list of values, and what it means for \<open>r\<close> to be \<open>x\<close>
  rounded to two decimal places: \<open>r\<close> is a whole number of hundredths and lies within
  half a hundredth of \<open>x\<close>.
\<close>

definition mean :: "rat list \<Rightarrow> rat" where
  "mean xs = sum_list xs / of_nat (length xs)"

definition rounds_to_2dp :: "rat \<Rightarrow> rat \<Rightarrow> bool" where
  "rounds_to_2dp x r = (of_int \<lfloor>r * 100\<rfloor> = r * 100 \<and> \<bar>r - x\<bar> \<le> 1 / 200)"

text \<open>The summary rows an invocation added to \<open>daily_weather_summary\<close>.\<close>

definition inserted_summaries :: "database \<Rightarrow> database \<Rightarrow> summary_row list" where
  "inserted_summaries db db' = drop (length (daily_weather_summary db)) (daily_weather_summary db')"

text \<open>
  No fault hits the invocation up to the end of the summarisation loop: the connection,
  the two leading queries and the insert of every city of the record set all succeed.
\<close>

definition loop_completes :: "agg_env \<Rightarrow> database \<Rightarrow> bool" where
  "loop_completes e db =
     list_all (\<lambda>s. \<not> fails e s)
       ([Connect, InitialDataQuery, CheckDataQuery] @
        map AggregationQuery (checkDataQuery (yesterdayIST (now e)) (weather_data db)))"

text \<open>The store after the loop has run over the whole record set without a fault.\<close>

definition summarized :: "agg_env \<Rightarrow> day \<Rightarrow> database \<Rightarrow> database" where
  "summarized e d db =
     db\<lparr>daily_weather_summary := daily_weather_summary db @
          concat (map (\<lambda>c. aggregationQuery (tie_order e) d c (weather_data db))
                      (checkDataQuery d (weather_data db)))\<rparr>"

text \<open>
  An invocation that changes nothing: the store is left as it was, the only steps attempted
  are the connection, the two leading queries and the close (so no summary insert and no
  statement of the purge), and it returns normally unless one of these four steps fails.
\<close>

definition is_no_op :: "agg_env \<Rightarrow> database \<Rightarrow> bool" where
  "is_no_op e db =
     (case dailyAggregation e db of
        (r, db', tr) \<Rightarrow>
          db' = db
          \<and> list_all (\<lambda>s. s \<in> {Connect, InitialDataQuery, CheckDataQuery, Close}) tr
          \<and> (list_all (\<lambda>s. \<not> fails e s) [Connect, InitialDataQuery, CheckDataQuery, Close]
               \<longrightarrow> r = Returned))"

text \<open>
  For the Collector: what \<open>fetchWeatherData\<close> returns for a city in an environment;
  whether the store takes the insert of an observation (the request is not rejected, all
  four numbers are there and both \<open>sql.Int\<close> values are in range); whether a city is fetched and its insert taken;
  what it means for a row to hold an observation as \<open>insertWeatherData\<close> binds it; and
  the rows an invocation added to \<open>weather_data\<close>.
\<close>

definition fetched :: "collector_env \<Rightarrow> city \<Rightarrow> params option" where
  "fetched e c = fetchWeatherData c (axios_get e c) (clock e c)"

definition insert_ok :: "collector_env \<Rightarrow> params \<Rightarrow> bool" where
  "insert_ok e p =
     (p_city p \<notin> set (insert_faults e)
      \<and> p_temperature p \<noteq> None
      \<and> p_feels_like p \<noteq> None
      \<and> (case p_pressure p of None \<Rightarrow> False | Some v \<Rightarrow> sql_Int v \<noteq> None)
      \<and> (case p_humidity p of None \<Rightarrow> False | Some v \<Rightarrow> sql_Int v \<noteq> None))"

definition accepted :: "collector_env \<Rightarrow> city \<Rightarrow> bool" where
  "accepted e c = (case fetched e c of None \<Rightarrow> False | Some p \<Rightarrow> insert_ok e p)"

definition stored_as :: "collector_env \<Rightarrow> params \<Rightarrow> weather_row \<Rightarrow> bool" where
  "stored_as e p row =
     (w_city row = p_city p
      \<and> p_temperature p = Some (w_temperature row)
      \<and> p_feels_like p = Some (w_feels_like row)
      \<and> (case p_pressure p of None \<Rightarrow> False | Some v \<Rightarrow> sql_Int v = Some (w_pressure row))
      \<and> (case p_humidity p of None \<Rightarrow> False | Some v \<Rightarrow> sql_Int v = Some (w_humidity row))
      \<and> w_weather row = p_weather p
      \<and> w_timestamp row = DateTimeOffset (p_timestamp p + 19800000) (tz_offset_min e))"

definition new_rows :: "database \<Rightarrow> database \<Rightarrow> weather_row list" where
  "new_rows db db' = drop (length (weather_data db)) (weather_data db')"

section \<open>Concrete stores and environments\<close>

text \<open>
  \<open>example_store\<close> holds four readings of day 0 (three for Delhi, one for Mumbai) and one
  reading of day 1; \<open>example_env\<close> is an invocation at 18:30 UTC of day 0 without faults,
  whose target date is day 0.
\<close>

definition reading :: "int \<Rightarrow> string \<Rightarrow> rat \<Rightarrow> int \<Rightarrow> string \<Rightarrow> int \<Rightarrow> weather_row" where
  "reading i c t p l ms =
     \<lparr> w_id = i, w_city = c, w_temperature = t, w_feels_like = t - 1, w_pressure = p,
       w_humidity = 40, w_weather = l, w_timestamp = DateTimeOffset ms 0 \<rparr>"

definition example_store :: database where
  "example_store =
     \<lparr> weather_data =
         [reading 1 ''Delhi'' 20 1010 ''Clear'' 300000,
          reading 2 ''Mumbai'' 30 1005 ''Rain'' 300000,
          reading 3 ''Delhi'' 21 1011 ''Haze'' 600000,
          reading 4 ''Delhi'' 20 1010 ''Haze'' 900000,
          reading 5 ''Delhi'' 25 1009 ''Clear'' 86400000],
       ident_current = 5, ident_incr = 1, daily_weather_summary = [] \<rparr>"

definition example_env :: agg_env where
  "example_env = \<lparr> now = 66600000, faults = [], tie_order = [] \<rparr>"

text \<open>
  \<open>whole_day_store\<close> holds readings of day 0 only, so the purge empties the table.
  \<open>delete_fault_env\<close> is the same invocation with a \<open>DELETE\<close> that rejects.
  \<open>label_store\<close> holds ten readings of Delhi on day 0 with the labels A (3 times),
  B (5 times) and C (twice); \<open>label_env\<close> ranks C before A before B among equal counts.
\<close>

definition whole_day_store :: database where
  "whole_day_store =
     \<lparr> weather_data =
         [reading 7 ''Delhi'' 20 1010 ''Clear'' 300000,
          reading 8 ''Mumbai'' 30 1005 ''Rain'' 300000],
       ident_current = 8, ident_incr = 1, daily_weather_summary = [] \<rparr>"

definition delete_fault_env :: agg_env where
  "delete_fault_env = \<lparr> now = 66600000, faults = [DeleteQuery], tie_order = [] \<rparr>"

definition label_store :: database where
  "label_store =
     \<lparr> weather_data =
         [reading 1 ''Delhi'' 20 1010 ''B'' 0,
          reading 2 ''Delhi'' 20 1010 ''A'' 300000,
          reading 3 ''Delhi'' 20 1010 ''B'' 600000,
          reading 4 ''Delhi'' 20 1010 ''C'' 900000,
          reading 5 ''Delhi'' 20 1010 ''A'' 1200000,
          reading 6 ''Delhi'' 20 1010 ''B'' 1500000,
          reading 7 ''Delhi'' 20 1010 ''B'' 1800000,
          reading 8 ''Delhi'' 20 1010 ''C'' 2100000,
          reading 9 ''Delhi'' 20 1010 ''A'' 2400000,
          reading 10 ''Delhi'' 20 1010 ''B'' 2700000],
       ident_current = 10, ident_incr = 1, daily_weather_summary = [] \<rparr>"

definition label_env :: agg_env where
  "label_env = \<lparr> now = 66600000, faults = [], tie_order = [''C'', ''A'', ''B''] \<rparr>"

text \<open>
  For the Collector: \<open>clouds_data\<close> is a complete API body whose own instant \<open>dt\<close> is
  1700000000 s. In \<open>partial_env\<close> the request for Delhi times out, the body for Kolkata
  has no \<open>main\<close>, the body for Mumbai has an empty \<open>weather\<close> array and the other three
  cities get \<open>clouds_data\<close>; the clock reads 1700000123456 ms at every response and the
  store rejects no request. \<open>clouds_params\<close> is the observation fetched for Chennai
  there. \<open>numberless_data\<close> is the body \<open>{"main": {}, "weather": [...]}\<close>; in
  \<open>numberless_env\<close> Delhi gets it and the other five cities get \<open>clouds_data\<close>.
\<close>

definition clouds_data :: response_data where
  "clouds_data =
     \<lparr> data_main = Some \<lparr>temp = Some (301 / 10), feels_like = Some 33,
                          pressure = Some (20257 / 20), humidity = Some 70\<rparr>,
       data_weather = Some [WeatherElem (Some ''Clouds'')],
       data_dt = 1700000000 \<rparr>"

definition partial_env :: collector_env where
  "partial_env =
     \<lparr> apiKey = Some ''key'',
       axios_get = (\<lambda>c.
         if name c = ''Delhi'' then Rejected Timeout
         else if name c = ''Kolkata'' then Response (Some (clouds_data\<lparr>data_main := None\<rparr>))
         else if name c = ''Mumbai'' then Response (Some (clouds_data\<lparr>data_weather := Some []\<rparr>))
         else Response (Some clouds_data)),
       clock = (\<lambda>c. 1700000123456),
       insert_faults = [],
       tz_offset_min = 0 \<rparr>"

definition empty_store :: database where
  "empty_store = \<lparr> weather_data = [], ident_current = 0, ident_incr = 1, daily_weather_summary = [] \<rparr>"

definition clouds_params :: params where
  "clouds_params =
     \<lparr> p_city = ''Chennai'', p_temperature = Some (301 / 10), p_feels_like = Some 33,
       p_pressure = Some (20257 / 20), p_humidity = Some 70, p_weather = ''Clouds'',
       p_timestamp = 1700000123456 \<rparr>"



section \<open>Properties of dailyAggregation\<close>

subsection \<open>Rounding, grouping and the queries\<close>

lemma ROUND_2_rounds: "rounds_to_2dp x (ROUND_2 x)"
proof (cases "0 \<le> x")
  case True
  define k where "k = \<lfloor>x * 100 + 1 / 2\<rfloor>"
  have r: "ROUND_2 x = of_int k / 100" using True by (simp add: ROUND_2_def k_def)
  have "of_int k \<le> x * 100 + 1 / 2" "x * 100 + 1 / 2 < of_int k + 1"
    unfolding k_def by linarith+
  then have "of_int k / 100 - x \<le> 1 / 200" "x - of_int k / 100 \<le> 1 / 200"
    by (simp_all add: field_simps)
  then have "\<bar>of_int k / 100 - x\<bar> \<le> 1 / 200" by linarith
  then show ?thesis by (simp add: rounds_to_2dp_def r)
next
  case False
  define k where "k = \<lfloor>- x * 100 + 1 / 2\<rfloor>"
  have r: "ROUND_2 x = - (of_int k / 100)" using False by (simp add: ROUND_2_def k_def)
  have "of_int k \<le> - x * 100 + 1 / 2" "- x * 100 + 1 / 2 < of_int k + 1"
    unfolding k_def by linarith+
  then have "- (of_int k / 100) - x \<le> 1 / 200" "x + of_int k / 100 \<le> 1 / 200"
    by (simp_all add: field_simps)
  then have "\<bar>- (of_int k / 100) - x\<bar> \<le> 1 / 200" by linarith
  moreover have "of_int \<lfloor>- (of_int k / 100) * 100 :: rat\<rfloor> = - (of_int k / 100) * (100::rat)"
    by (simp flip: of_int_minus)
  ultimately show ?thesis by (simp add: rounds_to_2dp_def r)
qed

lemma set_checkDataQuery: "set (checkDataQuery d wd) = w_city ` {w \<in> set wd. on_date d w}"
  by (auto simp: checkDataQuery_def)

lemma distinct_checkDataQuery: "distinct (checkDataQuery d wd)"
  by (simp add: checkDataQuery_def)

lemma checkDataQuery_Nil: "checkDataQuery d wd = [] \<longleftrightarrow> filter (on_date d) wd = []"
  by (simp add: checkDataQuery_def)

lemma aggregationQuery_city: "s \<in> set (aggregationQuery tie d c wd) \<Longrightarrow> s_city s = c"
  by (auto simp: aggregationQuery_def split: list.splits)

lemma filter_city_aggregationQuery:
  "filter (\<lambda>s. s_city s = c) (aggregationQuery tie d c' wd) = (if c' = c then aggregationQuery tie d c wd else [])"
  by (auto simp: filter_empty_conv filter_id_conv dest: aggregationQuery_city)

lemma filter_city_summaries:
  "distinct cs \<Longrightarrow> c \<in> set cs \<Longrightarrow>
   filter (\<lambda>s. s_city s = c) (concat (map (\<lambda>c'. aggregationQuery tie d c' wd) cs)) = aggregationQuery tie d c wd"
proof (induction cs)
  case Nil
  then show ?case by simp
next
  case (Cons a cs)
  show ?case
  proof (cases "a = c")
    case True
    with Cons.prems have "c \<notin> set cs" by simp
    then have "filter (\<lambda>s. s_city s = c) (concat (map (\<lambda>c'. aggregationQuery tie d c' wd) cs)) = []"
      by (auto simp: filter_empty_conv dest: aggregationQuery_city)
    with True show ?thesis by (simp add: filter_city_aggregationQuery)
  next
    case False
    with Cons show ?thesis by (simp add: filter_city_aggregationQuery)
  qed
qed

lemma summarize_ok:
  "list_all (\<lambda>c. \<not> fails e (AggregationQuery c)) cs \<Longrightarrow>
   summarize e d cs db =
     (None,
      db\<lparr>daily_weather_summary := daily_weather_summary db @
            concat (map (\<lambda>c. aggregationQuery (tie_order e) d c (weather_data db)) cs)\<rparr>,
      map AggregationQuery cs)"
  by (induction cs arbitrary: db) (simp_all add: Let_def)

lemma summarize_None:
  "summarize e d cs db = (None, db', tr) \<Longrightarrow> list_all (\<lambda>c. \<not> fails e (AggregationQuery c)) cs"
  by (induction cs arbitrary: db db' tr) (auto simp: Let_def split: if_splits prod.splits)

lemma fold_min_Min: "fold min xs (x::rat) = Min (set (x # xs))"
  using Min.set_eq_fold[of x xs] by simp

lemma fold_max_Max: "fold max xs (x::rat) = Max (set (x # xs))"
  using Max.set_eq_fold[of x xs] by simp

lemma aggregationQuery_row:
  assumes "filter (for_city d c) wd = obs" and "obs \<noteq> []"
  shows "\<exists>s. aggregationQuery tie d c wd = [s]
     \<and> s_city s = c \<and> s_date s = d
     \<and> avg_temp s = ROUND_2 (mean (map w_temperature obs))
     \<and> min_temp s = Min (set (map w_temperature obs))
     \<and> max_temp s = Max (set (map w_temperature obs))
     \<and> dominant_weather s = top1_weather (WeatherCounts tie d c wd)
     \<and> avg_feels_like s = ROUND_2 (mean (map w_feels_like obs))
     \<and> avg_pressure s = ROUND_2 (mean (map (\<lambda>r. of_int (w_pressure r)) obs))
     \<and> avg_humidity s = ROUND_2 (mean (map (\<lambda>r. of_int (w_humidity r)) obs))
     \<and> record_count s = length obs"
proof -
  from assms obtain w ws where obs: "obs = w # ws" by (cases obs) auto
  show ?thesis
    unfolding aggregationQuery_def assms(1) obs
    by (simp add: AVG_agg_def mean_def MIN_agg_def MAX_agg_def fold_min_Min fold_max_Max)
qed

lemma sorted_hd_least:
  "sorted (map f (x # xs)) \<Longrightarrow> y \<in> set (x # xs) \<Longrightarrow> f x \<le> f y"
  by auto

lemma top1_WeatherCounts:
  assumes "map w_weather (filter (for_city d c) wd) = labels" and "labels \<noteq> []"
  shows "\<exists>l. top1_weather (WeatherCounts tie d c wd) = Some l \<and> l \<in> set labels
     \<and> (\<forall>l'. count_list labels l' \<le> count_list labels l)"
proof -
  define gs where "gs = map (\<lambda>l. (l, count_list labels l)) (remdups labels)"
  define ws where "ws = sort_key (\<lambda>g. - int (snd g)) (sort_key (\<lambda>g. tie_key tie (fst g)) gs)"
  have wc: "WeatherCounts tie d c wd = ws"
    by (simp add: WeatherCounts_def assms(1) gs_def ws_def Let_def)
  have set_ws: "set ws = set gs" by (simp add: ws_def)
  have "gs \<noteq> []" using assms(2) by (simp add: gs_def)
  then have "ws \<noteq> []" using set_ws by (metis set_empty)
  then obtain h t where ht: "ws = h # t" by (cases ws) auto
  have srt: "sorted (map (\<lambda>g. - int (snd g)) ws)" by (simp add: ws_def)
  have least: "snd g \<le> snd h" if "g \<in> set ws" for g
    using sorted_hd_least[of "\<lambda>g. - int (snd g)" h t g] srt that unfolding ht by simp
  have "h \<in> set gs" using set_ws ht by auto
  then obtain l where l: "h = (l, count_list labels l)" "l \<in> set labels"
    by (auto simp: gs_def)
  have "count_list labels l' \<le> count_list labels l" for l'
  proof (cases "l' \<in> set labels")
    case True
    then have "(l', count_list labels l') \<in> set ws" by (simp add: set_ws gs_def)
    from least[OF this] show ?thesis by (simp add: l)
  next
    case False
    then show ?thesis by (simp add: count_list_0_iff)
  qed
  moreover have "top1_weather (WeatherCounts tie d c wd) = Some l"
    by (simp add: wc ht top1_weather_def l)
  ultimately show ?thesis using l(2) by blast
qed

lemma purge_summary: "daily_weather_summary (fst (snd (purge e d db))) = daily_weather_summary db"
  by (simp add: purge_def rolled_back_def deleteQuery_def resetIdentityQuery_def Let_def)

lemma purge_Returned:
  "fst (purge e d db) = Returned \<Longrightarrow> fst (snd (purge e d db)) = resetIdentityQuery (deleteQuery d db)"
  by (simp add: purge_def rolled_back_def Let_def split: if_splits)

subsection \<open>The handler, phase by phase\<close>

lemma summarized_frame [simp]:
  "weather_data (summarized e d db) = weather_data db"
  "ident_current (summarized e d db) = ident_current db"
  "ident_incr (summarized e d db) = ident_incr db"
  by (simp_all add: summarized_def)

lemma summarize_recordset:
  "list_all (\<lambda>c. \<not> fails e (AggregationQuery c)) (checkDataQuery d (weather_data db)) \<Longrightarrow>
   summarize e d (checkDataQuery d (weather_data db)) db =
     (None, summarized e d db, map AggregationQuery (checkDataQuery d (weather_data db)))"
  unfolding summarized_def by (rule summarize_ok)

lemma connected_with_data:
  assumes "\<not> fails e InitialDataQuery" "\<not> fails e CheckDataQuery"
    and "list_all (\<lambda>c. \<not> fails e (AggregationQuery c)) (checkDataQuery d (weather_data db))"
    and "checkDataQuery d (weather_data db) \<noteq> []"
    and "\<not> fails e VerifyQuery" "\<not> fails e Begin"
  shows "connected e d db =
     (fst (purge e d (summarized e d db)),
      fst (snd (purge e d (summarized e d db))),
      [InitialDataQuery, CheckDataQuery] @ map AggregationQuery (checkDataQuery d (weather_data db))
        @ [VerifyQuery, Begin] @ snd (snd (purge e d (summarized e d db))))"
  using assms(1,2,4,5,6)
  by (simp add: connected_def Let_def summarize_recordset[OF assms(3)] split: prod.splits)

lemma connected_summaries:
  assumes "\<not> fails e InitialDataQuery" "\<not> fails e CheckDataQuery"
    and "list_all (\<lambda>c. \<not> fails e (AggregationQuery c)) (checkDataQuery d (weather_data db))"
  shows "daily_weather_summary (fst (snd (connected e d db))) = daily_weather_summary (summarized e d db)"
proof (cases "checkDataQuery d (weather_data db) = []")
  case True
  with assms show ?thesis by (simp add: connected_def summarized_def)
next
  case False
  have "fst (snd (connected e d db)) = summarized e d db
      \<or> fst (snd (connected e d db)) = fst (snd (purge e d (summarized e d db)))"
    using assms(1,2) False
    by (simp add: connected_def Let_def summarize_recordset[OF assms(3)] split: prod.splits)
  then show ?thesis by (auto simp: purge_summary)
qed

lemma connected_Returned:
  assumes "fst (connected e d db) = Returned"
  shows "fst (snd (connected e d db)) =
      (if checkDataQuery d (weather_data db) = [] then db
       else resetIdentityQuery (deleteQuery d (summarized e d db)))"
proof (cases "checkDataQuery d (weather_data db) = []")
  case True
  with assms show ?thesis by (simp add: connected_def Let_def split: if_splits)
next
  case False
  obtain r db1 tr where s: "summarize e d (checkDataQuery d (weather_data db)) db = (r, db1, tr)"
    by (cases "summarize e d (checkDataQuery d (weather_data db)) db") auto
  from assms False have f: "\<not> fails e InitialDataQuery" "\<not> fails e CheckDataQuery"
    by (auto simp: connected_def split: if_splits)
  from assms False f have r: "r = None"
    by (cases r) (simp_all add: connected_def Let_def s)
  have ok: "list_all (\<lambda>c. \<not> fails e (AggregationQuery c)) (checkDataQuery d (weather_data db))"
    using summarize_None s r by blast
  from assms False f have vb: "\<not> fails e VerifyQuery" "\<not> fails e Begin"
    by (auto simp: connected_def Let_def summarize_recordset[OF ok] split: if_splits)
  note c = connected_with_data[OF f ok False vb]
  from assms have "fst (purge e d (summarized e d db)) = Returned" by (simp add: c)
  from purge_Returned[OF this] False show ?thesis by (simp add: c)
qed

lemma summaries_cities:
  "map s_city (concat (map (\<lambda>c. aggregationQuery tie d c wd) (checkDataQuery d wd))) = checkDataQuery d wd"
proof -
  have one: "map s_city (aggregationQuery tie d c wd) = [c]" if "c \<in> set (checkDataQuery d wd)" for c
  proof -
    from that have "filter (for_city d c) wd \<noteq> []"
      by (auto simp: set_checkDataQuery filter_empty_conv for_city_def)
    from aggregationQuery_row[OF refl this, of tie] show ?thesis by auto
  qed
  have "map s_city (concat (map (\<lambda>c. aggregationQuery tie d c wd) cs)) = cs"
    if "set cs \<subseteq> set (checkDataQuery d wd)" for cs
    using that by (induction cs) (simp_all add: one)
  then show ?thesis by simp
qed

lemma dailyAggregation_store:
  "\<not> fails e Connect \<Longrightarrow>
   fst (snd (dailyAggregation e db)) = fst (snd (connected e (yesterdayIST (now e)) db))"
  by (simp add: dailyAggregation_def split: prod.splits)

lemma dailyAggregation_Returned:
  "fst (dailyAggregation e db) = Returned \<Longrightarrow>
   \<not> fails e Connect \<and> \<not> fails e Close \<and> fst (connected e (yesterdayIST (now e)) db) = Returned"
  by (auto simp: dailyAggregation_def split: prod.splits if_splits)

lemma loop_completes_iff:
  "loop_completes e db \<longleftrightarrow>
     \<not> fails e Connect \<and> \<not> fails e InitialDataQuery \<and> \<not> fails e CheckDataQuery \<and>
     list_all (\<lambda>c. \<not> fails e (AggregationQuery c)) (checkDataQuery (yesterdayIST (now e)) (weather_data db))"
  by (simp add: loop_completes_def list_all_iff)

lemma inserted_summaries_loop:
  assumes "loop_completes e db"
  shows "inserted_summaries db (fst (snd (dailyAggregation e db))) =
     concat (map (\<lambda>c. aggregationQuery (tie_order e) (yesterdayIST (now e)) c (weather_data db))
                 (checkDataQuery (yesterdayIST (now e)) (weather_data db)))"
proof -
  from assms have f: "\<not> fails e Connect" "\<not> fails e InitialDataQuery" "\<not> fails e CheckDataQuery"
    "list_all (\<lambda>c. \<not> fails e (AggregationQuery c)) (checkDataQuery (yesterdayIST (now e)) (weather_data db))"
    by (simp_all add: loop_completes_iff)
  show ?thesis
    by (simp add: inserted_summaries_def dailyAggregation_store[OF f(1)]
        connected_summaries[OF f(2,3,4)] summarized_def)
qed

lemma inserted_for_city:
  assumes "loop_completes e db" and "filter (for_city (yesterdayIST (now e)) c) (weather_data db) \<noteq> []"
  shows "filter (\<lambda>s. s_city s = c) (inserted_summaries db (fst (snd (dailyAggregation e db)))) =
     aggregationQuery (tie_order e) (yesterdayIST (now e)) c (weather_data db)"
proof -
  from assms(2) have "c \<in> set (checkDataQuery (yesterdayIST (now e)) (weather_data db))"
    by (auto simp: set_checkDataQuery filter_empty_conv for_city_def)
  then show ?thesis
    by (simp add: inserted_summaries_loop[OF assms(1)] filter_city_summaries distinct_checkDataQuery)
qed

lemma dailyAggregation_Returned_store:
  assumes "dailyAggregation e db = (Returned, db', tr)"
  shows "db' = (if checkDataQuery (yesterdayIST (now e)) (weather_data db) = [] then db
       else resetIdentityQuery (deleteQuery (yesterdayIST (now e)) (summarized e (yesterdayIST (now e)) db)))"
proof -
  from assms have r: "fst (dailyAggregation e db) = Returned" by simp
  from dailyAggregation_Returned[OF r]
  have c: "\<not> fails e Connect" "fst (connected e (yesterdayIST (now e)) db) = Returned" by simp_all
  from dailyAggregation_store[OF c(1), of db] assms connected_Returned[OF c(2)]
  show ?thesis by simp
qed

lemma purged_weather_data:
  "weather_data (resetIdentityQuery (deleteQuery d (summarized e d db))) =
     filter (\<lambda>w. \<not> on_date d w) (weather_data db)"
  by (simp add: resetIdentityQuery_def deleteQuery_def)

lemma purged_summaries:
  "daily_weather_summary (resetIdentityQuery (deleteQuery d (summarized e d db))) =
     daily_weather_summary (summarized e d db)"
  by (simp add: resetIdentityQuery_def deleteQuery_def)

lemma filter_not_on_date: "filter (on_date d) wd = [] \<Longrightarrow> filter (\<lambda>w. \<not> on_date d w) wd = wd"
  by (simp add: filter_empty_conv filter_id_conv)

lemma purge_fault:
  assumes "fails e CountQuery \<or> fails e DeleteQuery \<or> fails e ResetIdentityQuery"
    and "\<not> fails e Rollback"
  shows "\<exists>s pre. purge e d db = (Raised s, db, pre @ [Rollback]) \<and> fails e s
      \<and> s \<in> {CountQuery, DeleteQuery, ResetIdentityQuery} \<and> Commit \<notin> set pre"
  using assms by (auto simp: purge_def rolled_back_def)

lemma no_data_is_no_op:
  assumes "filter (on_date (yesterdayIST (now e))) (weather_data db) = []"
  shows "is_no_op e db"
proof -
  let ?d = "yesterdayIST (now e)"
  from assms have nil: "checkDataQuery ?d (weather_data db) = []" by (simp add: checkDataQuery_Nil)
  have c: "connected e ?d db =
     (if fails e InitialDataQuery then (Raised InitialDataQuery, db, [InitialDataQuery])
      else if fails e CheckDataQuery then (Raised CheckDataQuery, db, [InitialDataQuery, CheckDataQuery])
      else (Returned, db, [InitialDataQuery, CheckDataQuery]))"
    by (simp add: connected_def nil)
  show ?thesis
    by (simp add: is_no_op_def dailyAggregation_def c)
qed

subsection \<open>The example runs\<close>

lemmas eval_defs = example_store_def example_env_def reading_def dailyAggregation_def connected_def
  fails_def yesterdayIST_def checkDataQuery_def on_date_def CONVERT_date_def aggregationQuery_def
  for_city_def purge_def rolled_back_def deleteQuery_def resetIdentityQuery_def NewSeed_def
  WeatherCounts_def top1_weather_def ROUND_2_def AVG_agg_def MIN_agg_def MAX_agg_def Let_def
  next_identity_def

lemma example_target_date: "yesterdayIST (now example_env) = 0"
  by (simp add: eval_defs)

lemma example_run:
  "dailyAggregation example_env example_store =
  (Returned,
   \<lparr> weather_data = [reading 5 ''Delhi'' 25 1009 ''Clear'' 86400000],
     ident_current = 4, ident_incr = 1,
     daily_weather_summary =
       [\<lparr>s_city = ''Mumbai'', s_date = 0, avg_temp = 30, min_temp = 30, max_temp = 30,
          dominant_weather = Some ''Rain'', avg_feels_like = 29, avg_pressure = 1005,
          avg_humidity = 40, record_count = 1\<rparr>,
        \<lparr>s_city = ''Delhi'', s_date = 0, avg_temp = 2033 / 100, min_temp = 20, max_temp = 21,
          dominant_weather = Some ''Haze'', avg_feels_like = 1933 / 100, avg_pressure = 101033 / 100,
          avg_humidity = 40, record_count = 3\<rparr>] \<rparr>,
   [Connect, InitialDataQuery, CheckDataQuery, AggregationQuery ''Mumbai'', AggregationQuery ''Delhi'',
    VerifyQuery, Begin, CountQuery, DeleteQuery, ResetIdentityQuery, Commit, FinalStateQuery, Close])"
  by (simp add: eval_defs floor_eq_iff)

lemma example_loop_completes: "loop_completes example_env example_store"
  by (simp add: loop_completes_def eval_defs)

lemma example_Delhi:
  "filter (for_city (yesterdayIST (now example_env)) ''Delhi'') (weather_data example_store) =
     [reading 1 ''Delhi'' 20 1010 ''Clear'' 300000,
      reading 3 ''Delhi'' 21 1011 ''Haze'' 600000,
      reading 4 ''Delhi'' 20 1010 ''Haze'' 900000]"
  by (simp add: eval_defs)

lemma whole_day_run:
  "dailyAggregation example_env whole_day_store =
     (Returned,
      \<lparr> weather_data = [], ident_current = - 1, ident_incr = 1,
        daily_weather_summary =
          [\<lparr>s_city = ''Delhi'', s_date = 0, avg_temp = 20, min_temp = 20, max_temp = 20,
             dominant_weather = Some ''Clear'', avg_feels_like = 19, avg_pressure = 1010,
             avg_humidity = 40, record_count = 1\<rparr>,
           \<lparr>s_city = ''Mumbai'', s_date = 0, avg_temp = 30, min_temp = 30, max_temp = 30,
             dominant_weather = Some ''Rain'', avg_feels_like = 29, avg_pressure = 1005,
             avg_humidity = 40, record_count = 1\<rparr>] \<rparr>,
      [Connect, InitialDataQuery, CheckDataQuery, AggregationQuery ''Delhi'', AggregationQuery ''Mumbai'',
       VerifyQuery, Begin, CountQuery, DeleteQuery, ResetIdentityQuery, Commit, FinalStateQuery, Close])"
  by (simp add: whole_day_store_def eval_defs floor_eq_iff)

lemma delete_fault_run:
  "dailyAggregation delete_fault_env example_store =
  (Raised DeleteQuery,
   example_store \<lparr> daily_weather_summary :=
       [\<lparr>s_city = ''Mumbai'', s_date = 0, avg_temp = 30, min_temp = 30, max_temp = 30,
          dominant_weather = Some ''Rain'', avg_feels_like = 29, avg_pressure = 1005,
          avg_humidity = 40, record_count = 1\<rparr>,
        \<lparr>s_city = ''Delhi'', s_date = 0, avg_temp = 2033 / 100, min_temp = 20, max_temp = 21,
          dominant_weather = Some ''Haze'', avg_feels_like = 1933 / 100, avg_pressure = 101033 / 100,
          avg_humidity = 40, record_count = 3\<rparr>] \<rparr>,
   [Connect, InitialDataQuery, CheckDataQuery, AggregationQuery ''Mumbai'', AggregationQuery ''Delhi'',
    VerifyQuery, Begin, CountQuery, DeleteQuery, Rollback, Close])"
  by (simp add: delete_fault_env_def eval_defs floor_eq_iff)

lemma label_loop_completes: "loop_completes label_env label_store"
  by (simp add: loop_completes_def label_env_def label_store_def eval_defs)

lemma label_labels:
  "map w_weather (filter (for_city (yesterdayIST (now label_env)) ''Delhi'') (weather_data label_store)) =
     [''B'', ''A'', ''B'', ''C'', ''A'', ''B'', ''B'', ''C'', ''A'', ''B'']"
  by (simp add: label_env_def label_store_def eval_defs)

section \<open>The claims about dailyAggregation\<close>

text \<open>
  C1. For every city with at least one observation on the target date, the invocation
  inserts exactly one summary row for that city. Its averages of temperature, feels-like,
  pressure and humidity are the arithmetic means of the city's observations of that date
  rounded to two decimal places, its minimum and maximum temperature are the minimum and
  maximum of those temperatures, and its record count is the number of those observations.
  This holds whenever no fault interrupts the invocation before the end of the loop,
  whatever happens in the purge afterwards.
\<close>

theorem summary_correctness:
  assumes "loop_completes e db"
    and "dailyAggregation e db = (r, db', tr)"
    and "obs = filter (for_city (yesterdayIST (now e)) c) (weather_data db)"
    and "obs \<noteq> []"
  shows "\<exists>s. filter (\<lambda>s. s_city s = c) (inserted_summaries db db') = [s]
     \<and> s_date s = yesterdayIST (now e)
     \<and> rounds_to_2dp (mean (map w_temperature obs)) (avg_temp s)
     \<and> min_temp s = Min (set (map w_temperature obs))
     \<and> max_temp s = Max (set (map w_temperature obs))
     \<and> rounds_to_2dp (mean (map w_feels_like obs)) (avg_feels_like s)
     \<and> rounds_to_2dp (mean (map (\<lambda>w. of_int (w_pressure w)) obs)) (avg_pressure s)
     \<and> rounds_to_2dp (mean (map (\<lambda>w. of_int (w_humidity w)) obs)) (avg_humidity s)
     \<and> record_count s = length obs"
proof -
  have ne: "filter (for_city (yesterdayIST (now e)) c) (weather_data db) \<noteq> []"
    using assms(3,4) by simp
  have ins: "filter (\<lambda>s. s_city s = c) (inserted_summaries db db') =
      aggregationQuery (tie_order e) (yesterdayIST (now e)) c (weather_data db)"
    using inserted_for_city[OF assms(1) ne] by (simp add: assms(2))
  from aggregationQuery_row[OF assms(3)[symmetric] assms(4), of "tie_order e"]
  obtain s where s: "aggregationQuery (tie_order e) (yesterdayIST (now e)) c (weather_data db) = [s]"
    "s_date s = yesterdayIST (now e)"
    "avg_temp s = ROUND_2 (mean (map w_temperature obs))"
    "min_temp s = Min (set (map w_temperature obs))"
    "max_temp s = Max (set (map w_temperature obs))"
    "avg_feels_like s = ROUND_2 (mean (map w_feels_like obs))"
    "avg_pressure s = ROUND_2 (mean (map (\<lambda>r. of_int (w_pressure r)) obs))"
    "avg_humidity s = ROUND_2 (mean (map (\<lambda>r. of_int (w_humidity r)) obs))"
    "record_count s = length obs"
    by blast
  show ?thesis
    using ins s by (simp add: ROUND_2_rounds)
qed

theorem summary_correctness_witness:
  "loop_completes example_env example_store
   \<and> (\<exists>s. filter (\<lambda>s. s_city s = ''Delhi'')
              (inserted_summaries example_store (fst (snd (dailyAggregation example_env example_store)))) = [s]
        \<and> s_date s = 0
        \<and> rounds_to_2dp (61 / 3) (avg_temp s)
        \<and> min_temp s = 20 \<and> max_temp s = 21
        \<and> rounds_to_2dp (58 / 3) (avg_feels_like s)
        \<and> rounds_to_2dp (3031 / 3) (avg_pressure s)
        \<and> rounds_to_2dp 40 (avg_humidity s)
        \<and> record_count s = 3)"
proof -
  have run: "dailyAggregation example_env example_store =
      (fst (dailyAggregation example_env example_store),
       fst (snd (dailyAggregation example_env example_store)),
       snd (snd (dailyAggregation example_env example_store)))"
    by simp
  from summary_correctness[OF example_loop_completes run example_Delhi[symmetric]]
  show ?thesis
    by (simp add: example_loop_completes example_target_date mean_def reading_def numeral_3_eq_3)
qed

text \<open>
  What the reseed does in general: after a successful invocation that purged at least one
  row, the identity value is the smallest remaining id minus one, or \<open>-1\<close> when no row
  remains, and the next generated id is that value plus the increment of the column.
\<close>

lemma reseed_after_purge:
  assumes "dailyAggregation e db = (Returned, db', tr)"
    and "filter (on_date (yesterdayIST (now e))) (weather_data db) \<noteq> []"
  shows "weather_data db' = filter (\<lambda>w. \<not> on_date (yesterdayIST (now e)) w) (weather_data db)
     \<and> ident_current db' =
       (if weather_data db' = [] then - 1 else Min (set (map w_id (weather_data db'))) - 1)
     \<and> next_identity db' =
       (if weather_data db' = [] then - 1 else Min (set (map w_id (weather_data db'))) - 1) + ident_incr db"
proof -
  let ?d = "yesterdayIST (now e)"
  from assms(2) have ne: "checkDataQuery ?d (weather_data db) \<noteq> []"
    by (simp add: checkDataQuery_Nil)
  then have db': "db' = resetIdentityQuery (deleteQuery ?d (summarized e ?d db))"
    using dailyAggregation_Returned_store[OF assms(1)] by simp
  have wd: "weather_data db' = weather_data (deleteQuery ?d (summarized e ?d db))"
    by (simp add: db' resetIdentityQuery_def)
  have seed: "ident_current db' = NewSeed (weather_data db')"
    by (simp add: db' resetIdentityQuery_def)
  have incr: "ident_incr db' = ident_incr db"
    by (simp add: db' resetIdentityQuery_def deleteQuery_def)
  have "NewSeed wd = (if wd = [] then - 1 else Min (set (map w_id wd)) - 1)" for wd
  proof (cases wd)
    case Nil
    then show ?thesis by (simp add: NewSeed_def)
  next
    case (Cons w ws)
    have "fold min (map w_id ws) (w_id w) = Min (set (w_id w # map w_id ws))"
      by (rule Min.set_eq_fold[symmetric])
    then show ?thesis by (simp add: NewSeed_def Cons)
  qed
  then show ?thesis
    by (simp add: seed next_identity_def incr) (simp add: db' purged_weather_data)
qed

text \<open>
  C2. The claim asks that after the purge the next generated id is one more than the largest
  id left in \<open>weather_data\<close>, or 1 when the table is empty. The handler reseeds with
  \<open>ISNULL(MIN(id), 0) - 1\<close> and does not do that. In \<open>example_store\<close> the row with id 5
  stays; the next id is 5 again, not 6, and the next insert of the Collector stores a second
  row with id 5. In \<open>whole_day_store\<close> no row stays; the next id is 0, not 1.
\<close>

theorem identity_reseed_failing_input:
  "fst (dailyAggregation example_env example_store) = Returned
   \<and> map w_id (weather_data (fst (snd (dailyAggregation example_env example_store)))) = [5]
   \<and> next_identity (fst (snd (dailyAggregation example_env example_store))) = 5
   \<and> next_identity (fst (snd (dailyAggregation example_env example_store)))
       \<noteq> Max (set (map w_id (weather_data (fst (snd (dailyAggregation example_env example_store)))))) + 1
   \<and> map w_id (weather_data (snd (insertWeatherData partial_env clouds_params
         (fst (snd (dailyAggregation example_env example_store)))))) = [5, 5]
   \<and> fst (dailyAggregation example_env whole_day_store) = Returned
   \<and> weather_data (fst (snd (dailyAggregation example_env whole_day_store))) = []
   \<and> next_identity (fst (snd (dailyAggregation example_env whole_day_store))) = 0
   \<and> next_identity (fst (snd (dailyAggregation example_env whole_day_store))) \<noteq> 1"
  by (simp add: example_run whole_day_run next_identity_def reading_def insertWeatherData_def
      clouds_params_def partial_env_def sql_Int_def floor_eq_iff)

text \<open>
  C3. For every city with observations on the target date, the \<open>dominant_weather\<close> of
  its inserted summary row is a label of those observations that no other label outnumbers,
  whatever order the engine gives to equal counts. In particular, when the labels are A
  (3 times), B (5 times) and C (twice), the selected label is B.
\<close>

theorem dominant_weather_most_frequent:
  assumes "loop_completes e db"
    and "dailyAggregation e db = (r, db', tr)"
    and "labels = map w_weather (filter (for_city (yesterdayIST (now e)) c) (weather_data db))"
    and "labels \<noteq> []"
  shows "\<exists>s l. filter (\<lambda>s. s_city s = c) (inserted_summaries db db') = [s]
     \<and> dominant_weather s = Some l
     \<and> l \<in> set labels
     \<and> (\<forall>l'. count_list labels l' \<le> count_list labels l)
     \<and> (set labels = {''A'', ''B'', ''C''} \<and> count_list labels ''A'' = 3
          \<and> count_list labels ''B'' = 5 \<and> count_list labels ''C'' = 2 \<longrightarrow> l = ''B'')"
proof -
  let ?d = "yesterdayIST (now e)"
  have ne: "filter (for_city ?d c) (weather_data db) \<noteq> []"
    using assms(3,4) by auto
  have ins: "filter (\<lambda>s. s_city s = c) (inserted_summaries db db') =
      aggregationQuery (tie_order e) ?d c (weather_data db)"
    using inserted_for_city[OF assms(1) ne] by (simp add: assms(2))
  from aggregationQuery_row[OF refl ne, of "tie_order e"]
  obtain s where s: "aggregationQuery (tie_order e) ?d c (weather_data db) = [s]"
    "dominant_weather s = top1_weather (WeatherCounts (tie_order e) ?d c (weather_data db))"
    by blast
  from top1_WeatherCounts[OF assms(3)[symmetric] assms(4), of "tie_order e"]
  obtain l where l: "top1_weather (WeatherCounts (tie_order e) ?d c (weather_data db)) = Some l"
    "l \<in> set labels" "\<And>l'. count_list labels l' \<le> count_list labels l"
    by blast
  have "l = ''B''" if "set labels = {''A'', ''B'', ''C''}" "count_list labels ''A'' = 3"
    "count_list labels ''B'' = 5" "count_list labels ''C'' = 2"
  proof -
    from l(2) that(1) have "l = ''A'' \<or> l = ''B'' \<or> l = ''C''" by simp
    moreover have "5 \<le> count_list labels l" using l(3)[of "''B''"] that(3) by simp
    ultimately show ?thesis using that(2,4) by auto
  qed
  with ins s l show ?thesis by auto
qed

theorem dominant_weather_most_frequent_witness:
  "loop_completes label_env label_store
   \<and> (\<exists>s. filter (\<lambda>s. s_city s = ''Delhi'')
             (inserted_summaries label_store (fst (snd (dailyAggregation label_env label_store)))) = [s]
        \<and> dominant_weather s = Some ''B'')"
proof -
  have run: "dailyAggregation label_env label_store =
      (fst (dailyAggregation label_env label_store),
       fst (snd (dailyAggregation label_env label_store)),
       snd (snd (dailyAggregation label_env label_store)))"
    by simp
  have "set [''B'', ''A'', ''B'', ''C'', ''A'', ''B'', ''B'', ''C'', ''A'', ''B''] = {''A'', ''B'', ''C''}"
    by auto
  with dominant_weather_most_frequent[OF label_loop_completes run label_labels[symmetric]]
  show ?thesis
    by (auto simp: label_loop_completes)
qed

text \<open>
  C4. After an invocation that returned normally, no row of the target date is left in
  \<open>weather_data\<close>, for any city: exactly the rows of other dates remain. Every city
  that had rows on the target date received its summary row in this same invocation.
\<close>

theorem purge_completeness:
  assumes "dailyAggregation e db = (Returned, db', tr)"
  shows "filter (on_date (yesterdayIST (now e))) (weather_data db') = []
     \<and> weather_data db' = filter (\<lambda>w. \<not> on_date (yesterdayIST (now e)) w) (weather_data db)
     \<and> map s_city (inserted_summaries db db') = checkDataQuery (yesterdayIST (now e)) (weather_data db)"
proof (cases "checkDataQuery (yesterdayIST (now e)) (weather_data db) = []")
  case True
  then have "db' = db" using dailyAggregation_Returned_store[OF assms] by simp
  moreover from True have "filter (on_date (yesterdayIST (now e))) (weather_data db) = []"
    by (simp add: checkDataQuery_Nil)
  ultimately show ?thesis
    using True by (simp add: filter_not_on_date inserted_summaries_def)
next
  case False
  then have db': "db' = resetIdentityQuery (deleteQuery (yesterdayIST (now e)) (summarized e (yesterdayIST (now e)) db))"
    using dailyAggregation_Returned_store[OF assms] by simp
  have "map s_city (inserted_summaries db db') = checkDataQuery (yesterdayIST (now e)) (weather_data db)"
    by (simp add: db' purged_summaries inserted_summaries_def) (simp add: summarized_def summaries_cities)
  then show ?thesis
    by (simp add: db' purged_weather_data)
qed

theorem purge_completeness_witness:
  "fst (dailyAggregation example_env example_store) = Returned
   \<and> filter (on_date 0) (weather_data (fst (snd (dailyAggregation example_env example_store)))) = []
   \<and> weather_data (fst (snd (dailyAggregation example_env example_store))) =
        [reading 5 ''Delhi'' 25 1009 ''Clear'' 86400000]
   \<and> map s_city (inserted_summaries example_store (fst (snd (dailyAggregation example_env example_store))))
        = [''Mumbai'', ''Delhi'']"
proof -
  have run: "dailyAggregation example_env example_store =
      (Returned, fst (snd (dailyAggregation example_env example_store)),
       snd (snd (dailyAggregation example_env example_store)))"
    by (simp add: example_run)
  from purge_completeness[OF run] show ?thesis
    by (simp add: example_target_date example_run)
       (simp add: example_store_def reading_def checkDataQuery_def on_date_def CONVERT_date_def)
qed

text \<open>
  C5. When the count, the delete or the identity reseed inside the transaction rejects
  (everything before it having succeeded, and the rollback and the close succeeding too),
  the handler issues a rollback and no commit, \<open>weather_data\<close> and its identity value
  are as before the invocation, the exception of the failing step is re-thrown, and the
  summary rows inserted before the transaction, one per city, stay in
  \<open>daily_weather_summary\<close>.
\<close>

theorem purge_failure_rolls_back:
  assumes "loop_completes e db"
    and "checkDataQuery (yesterdayIST (now e)) (weather_data db) \<noteq> []"
    and "\<not> fails e VerifyQuery" and "\<not> fails e Begin"
    and "fails e CountQuery \<or> fails e DeleteQuery \<or> fails e ResetIdentityQuery"
    and "\<not> fails e Rollback" and "\<not> fails e Close"
    and "dailyAggregation e db = (r, db', tr)"
  shows "(\<exists>s. r = Raised s \<and> fails e s \<and> s \<in> {CountQuery, DeleteQuery, ResetIdentityQuery})
     \<and> Rollback \<in> set tr \<and> Commit \<notin> set tr
     \<and> weather_data db' = weather_data db
     \<and> ident_current db' = ident_current db
     \<and> daily_weather_summary db' = daily_weather_summary db @ inserted_summaries db db'
     \<and> map s_city (inserted_summaries db db') = checkDataQuery (yesterdayIST (now e)) (weather_data db)"
proof -
  let ?d = "yesterdayIST (now e)"
  from assms(1) have f: "\<not> fails e Connect" "\<not> fails e InitialDataQuery" "\<not> fails e CheckDataQuery"
    "list_all (\<lambda>c. \<not> fails e (AggregationQuery c)) (checkDataQuery ?d (weather_data db))"
    by (simp_all add: loop_completes_iff)
  from purge_fault[OF assms(5,6), of ?d "summarized e ?d db"]
  obtain s pre where p: "purge e ?d (summarized e ?d db) = (Raised s, summarized e ?d db, pre @ [Rollback])"
    "fails e s" "s \<in> {CountQuery, DeleteQuery, ResetIdentityQuery}" "Commit \<notin> set pre"
    by blast
  have c: "connected e ?d db =
      (Raised s, summarized e ?d db,
       [InitialDataQuery, CheckDataQuery] @ map AggregationQuery (checkDataQuery ?d (weather_data db))
         @ [VerifyQuery, Begin] @ pre @ [Rollback])"
    by (simp add: connected_with_data[OF f(2,3,4) assms(2,3,4)] p(1))
  have run: "dailyAggregation e db =
      (Raised s, summarized e ?d db,
       Connect # ([InitialDataQuery, CheckDataQuery] @ map AggregationQuery (checkDataQuery ?d (weather_data db))
         @ [VerifyQuery, Begin] @ pre @ [Rollback]) @ [Close])"
    using f(1) assms(7) by (simp add: dailyAggregation_def c)
  from run assms(8) have r: "r = Raised s" and db': "db' = summarized e ?d db"
    and tr: "tr = Connect # ([InitialDataQuery, CheckDataQuery] @ map AggregationQuery (checkDataQuery ?d (weather_data db))
         @ [VerifyQuery, Begin] @ pre @ [Rollback]) @ [Close]"
    by simp_all
  have "Commit \<notin> set tr" using p(4) by (auto simp: tr)
  moreover have "Rollback \<in> set tr" by (simp add: tr)
  moreover have "inserted_summaries db db' =
      concat (map (\<lambda>c. aggregationQuery (tie_order e) ?d c (weather_data db)) (checkDataQuery ?d (weather_data db)))"
    by (simp add: db' inserted_summaries_def summarized_def)
  moreover have "daily_weather_summary db' = daily_weather_summary db @
      concat (map (\<lambda>c. aggregationQuery (tie_order e) ?d c (weather_data db)) (checkDataQuery ?d (weather_data db)))"
    by (simp add: db' summarized_def)
  ultimately show ?thesis
    using r p(2,3) by (simp add: db' summaries_cities)
qed

theorem purge_failure_rolls_back_witness:
  "fst (dailyAggregation delete_fault_env example_store) = Raised DeleteQuery
   \<and> Rollback \<in> set (snd (snd (dailyAggregation delete_fault_env example_store)))
   \<and> Commit \<notin> set (snd (snd (dailyAggregation delete_fault_env example_store)))
   \<and> weather_data (fst (snd (dailyAggregation delete_fault_env example_store))) = weather_data example_store
   \<and> ident_current (fst (snd (dailyAggregation delete_fault_env example_store))) = 5
   \<and> map s_city (daily_weather_summary (fst (snd (dailyAggregation delete_fault_env example_store))))
       = [''Mumbai'', ''Delhi'']"
proof -
  have run: "dailyAggregation delete_fault_env example_store =
      (fst (dailyAggregation delete_fault_env example_store),
       fst (snd (dailyAggregation delete_fault_env example_store)),
       snd (snd (dailyAggregation delete_fault_env example_store)))"
    by simp
  have h: "loop_completes delete_fault_env example_store"
    "checkDataQuery (yesterdayIST (now delete_fault_env)) (weather_data example_store) \<noteq> []"
    "\<not> fails delete_fault_env VerifyQuery" "\<not> fails delete_fault_env Begin"
    "fails delete_fault_env CountQuery \<or> fails delete_fault_env DeleteQuery \<or> fails delete_fault_env ResetIdentityQuery"
    "\<not> fails delete_fault_env Rollback" "\<not> fails delete_fault_env Close"
    by (simp_all add: loop_completes_def delete_fault_env_def eval_defs)
  from purge_failure_rolls_back[OF h run] show ?thesis
    by (simp add: delete_fault_run) (simp add: example_store_def)
qed

text \<open>
  C6. When no row of the target date exists, the invocation is a no-op: it inserts no
  summary row, attempts no statement of the purge and returns normally (as long as the
  connection, the two leading queries and the close succeed). Hence a second invocation for
  the same target date, run on the store a first successful invocation left behind, is such
  a no-op.
\<close>

theorem idempotent_no_op:
  "(filter (on_date (yesterdayIST (now e))) (weather_data db) = [] \<longrightarrow> is_no_op e db)
   \<and> (dailyAggregation e db = (Returned, db', tr) \<and> yesterdayIST (now e') = yesterdayIST (now e)
        \<longrightarrow> is_no_op e' db')"
proof (intro conjI impI)
  assume "filter (on_date (yesterdayIST (now e))) (weather_data db) = []"
  then show "is_no_op e db" by (rule no_data_is_no_op)
next
  assume a: "dailyAggregation e db = (Returned, db', tr) \<and> yesterdayIST (now e') = yesterdayIST (now e)"
  then have r: "fst (dailyAggregation e db) = Returned" by simp
  from dailyAggregation_Returned[OF r]
  have c: "\<not> fails e Connect" "fst (connected e (yesterdayIST (now e)) db) = Returned" by simp_all
  have db': "db' = fst (snd (connected e (yesterdayIST (now e)) db))"
    using dailyAggregation_store[OF c(1), of db] a by simp
  have "filter (on_date (yesterdayIST (now e))) (weather_data db') = []"
  proof (cases "checkDataQuery (yesterdayIST (now e)) (weather_data db) = []")
    case True
    then show ?thesis using connected_Returned[OF c(2)] by (simp add: db' checkDataQuery_Nil)
  next
    case False
    then show ?thesis using connected_Returned[OF c(2)]
      by (simp add: db' resetIdentityQuery_def deleteQuery_def)
  qed
  with a have "filter (on_date (yesterdayIST (now e'))) (weather_data db') = []" by simp
  then show "is_no_op e' db'" by (rule no_data_is_no_op)
qed

theorem idempotent_no_op_witness:
  "fst (dailyAggregation example_env example_store) = Returned
   \<and> is_no_op example_env (fst (snd (dailyAggregation example_env example_store)))
   \<and> dailyAggregation example_env (fst (snd (dailyAggregation example_env example_store))) =
       (Returned, fst (snd (dailyAggregation example_env example_store)),
        [Connect, InitialDataQuery, CheckDataQuery, Close])"
proof -
  have run: "dailyAggregation example_env example_store =
      (Returned, fst (snd (dailyAggregation example_env example_store)),
       snd (snd (dailyAggregation example_env example_store)))"
    by (simp add: example_run)
  from idempotent_no_op[of example_env example_store
      "fst (snd (dailyAggregation example_env example_store))"
      "snd (snd (dailyAggregation example_env example_store))" example_env] run
  have n: "is_no_op example_env (fst (snd (dailyAggregation example_env example_store)))"
    by blast
  have "dailyAggregation example_env (fst (snd (dailyAggregation example_env example_store))) =
       (Returned, fst (snd (dailyAggregation example_env example_store)),
        [Connect, InitialDataQuery, CheckDataQuery, Close])"
    by (simp add: example_run) (simp add: eval_defs)
  with n show ?thesis by (simp add: example_run)
qed

section \<open>Properties of weatherTrigger\<close>

subsection \<open>One insert, all inserts, the handler\<close>

lemma insertWeatherData_ok:
  assumes "insert_ok e p"
  shows "\<exists>row. insertWeatherData e p db =
       (True, db\<lparr>weather_data := weather_data db @ [row], ident_current := next_identity db\<rparr>)
     \<and> stored_as e p row \<and> w_id row = next_identity db"
  using assms
  by (auto simp: insert_ok_def insertWeatherData_def stored_as_def istOffset_def split: option.splits)

lemma insertWeatherData_rejected:
  "\<not> insert_ok e p \<Longrightarrow> insertWeatherData e p db = (False, db)"
  by (auto simp: insert_ok_def insertWeatherData_def split: option.splits)

lemma insertWeatherData_True:
  "insertWeatherData e p db = (True, db') \<Longrightarrow> insert_ok e p"
  using insertWeatherData_rejected[of e p db] by auto

lemma insert_all_rows:
  "\<exists>rows. weather_data (snd (insert_all e ps db)) = weather_data db @ rows
     \<and> list_all2 (stored_as e) (filter (insert_ok e) ps) rows
     \<and> daily_weather_summary (snd (insert_all e ps db)) = daily_weather_summary db"
proof (induction ps arbitrary: db)
  case Nil
  then show ?case by simp
next
  case (Cons p ps)
  show ?case
  proof (cases "insert_ok e p")
    case True
    from insertWeatherData_ok[OF True, of db] obtain row where
      i: "insertWeatherData e p db =
         (True, db\<lparr>weather_data := weather_data db @ [row], ident_current := next_identity db\<rparr>)"
      and st: "stored_as e p row" by blast
    let ?db1 = "db\<lparr>weather_data := weather_data db @ [row], ident_current := next_identity db\<rparr>"
    from Cons.IH[of ?db1] obtain rows where
      r: "weather_data (snd (insert_all e ps ?db1)) = weather_data ?db1 @ rows"
        "list_all2 (stored_as e) (filter (insert_ok e) ps) rows"
        "daily_weather_summary (snd (insert_all e ps ?db1)) = daily_weather_summary ?db1"
      by blast
    have "weather_data (snd (insert_all e (p # ps) db)) = weather_data db @ (row # rows)"
      using r(1) by (simp add: i split: prod.splits)
    moreover have "list_all2 (stored_as e) (filter (insert_ok e) (p # ps)) (row # rows)"
      using True st r(2) by simp
    moreover have "daily_weather_summary (snd (insert_all e (p # ps) db)) = daily_weather_summary db"
      using r(3) by (simp add: i split: prod.splits)
    ultimately show ?thesis by blast
  next
    case False
    obtain r2 db2 where i: "insert_all e ps db = (r2, db2)" by (cases "insert_all e ps db") auto
    from Cons.IH[of db] show ?thesis
      by (simp add: insertWeatherData_rejected[OF False] False i)
  qed
qed

lemma insert_all_outcome:
  "fst (insert_all e ps db) = None \<longleftrightarrow> list_all (insert_ok e) ps"
proof (induction ps arbitrary: db)
  case Nil
  then show ?case by simp
next
  case (Cons p ps)
  show ?case
  proof (cases "insert_ok e p")
    case True
    from insertWeatherData_ok[OF True, of db] obtain db1 where
      i: "insertWeatherData e p db = (True, db1)" by blast
    show ?thesis using Cons.IH[of db1] True by (simp add: i split: prod.splits)
  next
    case False
    show ?thesis by (simp add: insertWeatherData_rejected[OF False] False split: prod.splits)
  qed
qed

lemma validWeatherData_fetched:
  "validWeatherData e = map (\<lambda>c. the (fetched e c)) (filter (\<lambda>c. fetched e c \<noteq> None) cities)"
  by (simp add: validWeatherData_def weatherDataResults_def fetched_def filter_map comp_def)

lemma filter_insert_ok_valid:
  "filter (insert_ok e) (validWeatherData e) = map (\<lambda>c. the (fetched e c)) (filter (accepted e) cities)"
proof -
  have "(fetched e c \<noteq> None \<and> insert_ok e (the (fetched e c))) = accepted e c" for c
    by (cases "fetched e c") (simp_all add: accepted_def)
  then show ?thesis
    by (simp add: validWeatherData_fetched filter_map comp_def)
qed

lemma all_insert_ok_valid:
  "list_all (insert_ok e) (validWeatherData e) \<longleftrightarrow> list_all (\<lambda>c. fetched e c = None \<or> accepted e c) cities"
proof -
  have "(fetched e c \<noteq> None \<longrightarrow> insert_ok e (the (fetched e c))) = (fetched e c = None \<or> accepted e c)" for c
    by (cases "fetched e c") (simp_all add: accepted_def)
  then show ?thesis
    unfolding validWeatherData_fetched list_all_iff by auto
qed

lemma weatherTrigger_keyed:
  assumes "apiKey e = Some k" and "k \<noteq> []"
  shows "weatherTrigger e db =
     ((case fst (insert_all e (validWeatherData e) db) of None \<Rightarrow> Completed | Some c \<Rightarrow> Threw (InsertRejected c)),
      snd (insert_all e (validWeatherData e) db))"
  using assms by (auto simp: weatherTrigger_def split: prod.splits option.splits)

lemma list_all2_map_the:
  "list_all2 (stored_as e) (map (\<lambda>c. the (fetched e c)) (filter (accepted e) cs)) rows \<Longrightarrow>
   list_all2 (\<lambda>c row. \<exists>p. fetched e c = Some p \<and> stored_as e p row) (filter (accepted e) cs) rows"
proof (induction cs arbitrary: rows)
  case Nil
  then show ?case by simp
next
  case (Cons a cs)
  show ?case
  proof (cases "accepted e a")
    case True
    then obtain p where p: "fetched e a = Some p" by (auto simp: accepted_def split: option.splits)
    from Cons.prems True obtain z zs where z: "rows = z # zs" "stored_as e p z"
      "list_all2 (stored_as e) (map (\<lambda>c. the (fetched e c)) (filter (accepted e) cs)) zs"
      by (auto simp: list_all2_Cons1 p)
    from Cons.IH[OF z(3)] True z(1,2) p show ?thesis by simp
  next
    case False
    with Cons show ?thesis by simp
  qed
qed

lemma weatherTrigger_rows:
  assumes "apiKey e = Some k" and "k \<noteq> []"
    and "weatherTrigger e db = (r, db')"
  shows "\<exists>rows. weather_data db' = weather_data db @ rows
     \<and> list_all2 (\<lambda>c row. \<exists>p. fetched e c = Some p \<and> stored_as e p row) (filter (accepted e) cities) rows
     \<and> (r = Completed \<longleftrightarrow> list_all (\<lambda>c. fetched e c = None \<or> accepted e c) cities)"
proof -
  from weatherTrigger_keyed[OF assms(1,2), of db] assms(3)
  have r: "r = (case fst (insert_all e (validWeatherData e) db) of None \<Rightarrow> Completed | Some c \<Rightarrow> Threw (InsertRejected c))"
    and db': "db' = snd (insert_all e (validWeatherData e) db)" by simp_all
  from insert_all_rows[of e "validWeatherData e" db] obtain rows where
    rows: "weather_data db' = weather_data db @ rows"
      "list_all2 (stored_as e) (filter (insert_ok e) (validWeatherData e)) rows"
    unfolding db' by blast
  have "list_all2 (\<lambda>c row. \<exists>p. fetched e c = Some p \<and> stored_as e p row) (filter (accepted e) cities) rows"
    using rows(2) unfolding filter_insert_ok_valid by (rule list_all2_map_the)
  moreover have "r = Completed \<longleftrightarrow> list_all (\<lambda>c. fetched e c = None \<or> accepted e c) cities"
    using insert_all_outcome[of e "validWeatherData e" db]
    by (cases "fst (insert_all e (validWeatherData e) db)") (auto simp: r all_insert_ok_valid[symmetric])
  ultimately show ?thesis using rows(1) by blast
qed

lemma fetched_Some:
  assumes "fetched e c = Some p"
  shows "p_city p = name c \<and> p_timestamp p = clock e c"
  using assms
  by (auto simp: fetched_def fetchWeatherData_def split: axios_result.splits option.splits)


lemma list_all2_right:
  "list_all2 P xs ys \<Longrightarrow> y \<in> set ys \<Longrightarrow> \<exists>x\<in>set xs. P x y"
  by (induction rule: list_all2_induct) auto

lemma list_all2_left:
  "list_all2 P xs ys \<Longrightarrow> x \<in> set xs \<Longrightarrow> \<exists>y\<in>set ys. P x y"
  by (induction rule: list_all2_induct) auto


lemma weatherTrigger_new_rows:
  assumes "apiKey e = Some k" and "k \<noteq> []"
    and "weatherTrigger e db = (r, db')"
  shows "weather_data db' = weather_data db @ new_rows db db'"
    and "list_all2 (\<lambda>c row. \<exists>p. fetched e c = Some p \<and> stored_as e p row)
           (filter (accepted e) cities) (new_rows db db')"
    and "r = Completed \<longleftrightarrow> list_all (\<lambda>c. fetched e c = None \<or> accepted e c) cities"
  using weatherTrigger_rows[OF assms] by (auto simp: new_rows_def)

lemma weatherTrigger_no_key:
  "apiKey e = None \<or> apiKey e = Some [] \<Longrightarrow> weatherTrigger e db = (Threw ApiKeyMissing, db)"
  by (auto simp: weatherTrigger_def)

lemma sum_list_of_int: "sum_list (map (\<lambda>r. of_int (f r)) xs) = (of_int (sum_list (map f xs)) :: rat)"
  by (induction xs) simp_all

lemma floor_exact_iff: "(of_int \<lfloor>x\<rfloor> = x) = (x \<in> \<int>)" for x :: rat
  by (auto simp: Ints_def of_int_floor_cancel)

lemma ceiling_exact_iff: "(of_int \<lceil>x\<rceil> = x) = (x \<in> \<int>)" for x :: rat
  by (auto simp: Ints_def of_int_ceiling_cancel)

lemma sql_Int_Some:
  assumes "sql_Int v = Some i"
  shows "i = (if 0 \<le> v then \<lfloor>v\<rfloor> else \<lceil>v\<rceil>) \<and> \<bar>of_int i - v\<bar> < 1 \<and> (of_int i = v \<longleftrightarrow> v \<in> \<int>)"
proof -
  from assms have i: "i = (if 0 \<le> v then \<lfloor>v\<rfloor> else \<lceil>v\<rceil>)"
    by (simp add: sql_Int_def split: if_splits)
  have "\<bar>of_int i - v\<bar> < 1" unfolding i by (cases "0 \<le> v") (simp_all, linarith+)
  moreover have "of_int i = v \<longleftrightarrow> v \<in> \<int>"
    unfolding i using floor_exact_iff[of v] ceiling_exact_iff[of v] by (cases "0 \<le> v") simp_all
  ultimately show ?thesis using i by simp
qed

subsection \<open>The example invocation\<close>

lemmas collector_defs = partial_env_def clouds_data_def empty_store_def weatherTrigger_def
  validWeatherData_def weatherDataResults_def cities_def fetchWeatherData_def insertWeatherData_def
  sql_Int_def next_identity_def weather_label_def istOffset_def

lemma partial_run:
  "weatherTrigger partial_env empty_store =
     (Completed,
      \<lparr> weather_data =
          [\<lparr>w_id = 1, w_city = ''Mumbai'', w_temperature = 301 / 10, w_feels_like = 33, w_pressure = 1012,
             w_humidity = 70, w_weather = ''Unknown'', w_timestamp = DateTimeOffset 1700019923456 0\<rparr>,
           \<lparr>w_id = 2, w_city = ''Chennai'', w_temperature = 301 / 10, w_feels_like = 33, w_pressure = 1012,
             w_humidity = 70, w_weather = ''Clouds'', w_timestamp = DateTimeOffset 1700019923456 0\<rparr>,
           \<lparr>w_id = 3, w_city = ''Bangalore'', w_temperature = 301 / 10, w_feels_like = 33, w_pressure = 1012,
             w_humidity = 70, w_weather = ''Clouds'', w_timestamp = DateTimeOffset 1700019923456 0\<rparr>,
           \<lparr>w_id = 4, w_city = ''Hyderabad'', w_temperature = 301 / 10, w_feels_like = 33, w_pressure = 1012,
             w_humidity = 70, w_weather = ''Clouds'', w_timestamp = DateTimeOffset 1700019923456 0\<rparr>],
        ident_current = 4, ident_incr = 1, daily_weather_summary = [] \<rparr>)"
  by (simp add: collector_defs floor_eq_iff)

lemma clouds_insert:
  "insertWeatherData partial_env clouds_params empty_store =
     (True,
      \<lparr> weather_data =
          [\<lparr>w_id = 1, w_city = ''Chennai'', w_temperature = 301 / 10, w_feels_like = 33, w_pressure = 1012,
             w_humidity = 70, w_weather = ''Clouds'', w_timestamp = DateTimeOffset 1700019923456 0\<rparr>],
        ident_current = 1, ident_incr = 1, daily_weather_summary = [] \<rparr>)"
  by (simp add: clouds_params_def collector_defs floor_eq_iff)

section \<open>The claims about weatherTrigger\<close>

text \<open>
  C7, as amended. Every row the Collector stores carries the reading of the Collector's own
  clock, taken when the response for the row's city was handled, shifted by exactly
  19800000 ms (+5.5 hours) and bound as an offset-aware date-time. No instant of the API
  body enters the stored value.
\<close>

theorem stored_timestamp:
  assumes "weatherTrigger e db = (r, db')"
  shows "weather_data db' = weather_data db @ new_rows db db'
     \<and> list_all (\<lambda>row. \<exists>c\<in>set cities. w_city row = name c
            \<and> w_timestamp row = DateTimeOffset (clock e c + 19800000) (tz_offset_min e))
          (new_rows db db')"
proof (cases "apiKey e = None \<or> apiKey e = Some []")
  case True
  from weatherTrigger_no_key[OF True, of db] assms have "db' = db" by simp
  then show ?thesis by (simp add: new_rows_def)
next
  case False
  then obtain k where k: "apiKey e = Some k" "k \<noteq> []" by (cases "apiKey e") auto
  note n = weatherTrigger_new_rows[OF k assms]
  have "\<exists>c\<in>set cities. w_city row = name c
      \<and> w_timestamp row = DateTimeOffset (clock e c + 19800000) (tz_offset_min e)"
    if "row \<in> set (new_rows db db')" for row
  proof -
    from list_all2_right[OF n(2) that] obtain c p where
      c: "c \<in> set cities" "fetched e c = Some p" "stored_as e p row" by auto
    from fetched_Some[OF c(2)] c(3) have "w_city row = name c"
      "w_timestamp row = DateTimeOffset (clock e c + 19800000) (tz_offset_min e)"
      by (simp_all add: stored_as_def)
    with c(1) show ?thesis by blast
  qed
  with n(1) show ?thesis by (simp add: list_all_iff)
qed

theorem stored_timestamp_witness:
  "map w_timestamp (new_rows empty_store (snd (weatherTrigger partial_env empty_store))) =
     [DateTimeOffset 1700019923456 0, DateTimeOffset 1700019923456 0,
      DateTimeOffset 1700019923456 0, DateTimeOffset 1700019923456 0]
   \<and> list_all (\<lambda>row. w_timestamp row = DateTimeOffset (1700000123456 + 19800000) 0)
        (new_rows empty_store (snd (weatherTrigger partial_env empty_store)))"
proof -
  have run: "weatherTrigger partial_env empty_store =
      (fst (weatherTrigger partial_env empty_store), snd (weatherTrigger partial_env empty_store))"
    by simp
  from stored_timestamp[OF run]
  have "list_all (\<lambda>row. w_timestamp row = DateTimeOffset (1700000123456 + 19800000) 0)
        (new_rows empty_store (snd (weatherTrigger partial_env empty_store)))"
    by (auto simp: list_all_iff partial_env_def)
  moreover have "map w_timestamp (new_rows empty_store (snd (weatherTrigger partial_env empty_store))) =
     [DateTimeOffset 1700019923456 0, DateTimeOffset 1700019923456 0,
      DateTimeOffset 1700019923456 0, DateTimeOffset 1700019923456 0]"
    by (simp add: partial_run new_rows_def) (simp add: empty_store_def)
  ultimately show ?thesis by simp
qed

text \<open>
  The claim as written takes the instant from the API. In \<open>partial_env\<close> the body for
  Chennai reports the instant 1700000000 s, which shifted by 5.5 hours is 1700019800000 ms;
  the row stored for Chennai carries 1700019923456 ms, the shifted clock reading.
\<close>

theorem stored_timestamp_counterexample:
  "axios_get partial_env (cities ! 2) = Response (Some clouds_data)
   \<and> data_dt clouds_data = 1700000000
   \<and> clock partial_env (cities ! 2) = 1700000123456
   \<and> new_rows empty_store (snd (weatherTrigger partial_env empty_store)) ! 1 =
       \<lparr>w_id = 2, w_city = name (cities ! 2), w_temperature = 301 / 10, w_feels_like = 33,
         w_pressure = 1012, w_humidity = 70, w_weather = ''Clouds'',
         w_timestamp = DateTimeOffset 1700019923456 0\<rparr>
   \<and> DateTimeOffset 1700019923456 0 \<noteq> DateTimeOffset (data_dt clouds_data * 1000 + 19800000) 0"
  by (simp add: partial_run new_rows_def) (simp add: partial_env_def clouds_data_def cities_def empty_store_def)




text \<open>
  C9, as amended. For a configured city whose API body has the object \<open>main\<close> and a
  \<open>weather\<close> array that is present but empty, \<open>fetchWeatherData\<close> returns an
  observation with the label \<open>Unknown\<close> and the numbers of \<open>main\<close>, and when the store
  takes its insert the invocation adds a row for that city with the label \<open>Unknown\<close>.
\<close>

theorem empty_weather_array_unknown:
  assumes "c \<in> set cities"
    and "axios_get e c = Response (Some d)"
    and "data_main d = Some m"
    and "data_weather d = Some []"
    and "apiKey e = Some k" and "k \<noteq> []"
    and "weatherTrigger e db = (r, db')"
  shows "\<exists>p. fetched e c = Some p
     \<and> p_weather p = ''Unknown''
     \<and> p_city p = name c \<and> p_temperature p = temp m \<and> p_feels_like p = feels_like m
     \<and> p_pressure p = pressure m \<and> p_humidity p = humidity m
     \<and> (insert_ok e p \<longrightarrow>
          (\<exists>row\<in>set (new_rows db db'). stored_as e p row \<and> w_city row = name c \<and> w_weather row = ''Unknown''))"
proof -
  define p where "p = \<lparr> p_city = name c, p_temperature = temp m, p_feels_like = feels_like m,
      p_pressure = pressure m, p_humidity = humidity m, p_weather = ''Unknown'',
      p_timestamp = clock e c \<rparr>"
  have f: "fetched e c = Some p"
    by (simp add: fetched_def fetchWeatherData_def assms(2,3,4) weather_label_def p_def)
  have "\<exists>row\<in>set (new_rows db db'). stored_as e p row \<and> w_city row = name c \<and> w_weather row = ''Unknown''"
    if ok: "insert_ok e p"
  proof -
    from ok f have "accepted e c" by (simp add: accepted_def)
    with assms(1) have "c \<in> set (filter (accepted e) cities)" by simp
    from list_all2_left[OF weatherTrigger_new_rows(2)[OF assms(5,6,7)] this] f
    obtain row where row: "row \<in> set (new_rows db db')" "stored_as e p row" by auto
    from row(2) have "w_city row = name c" "w_weather row = ''Unknown''"
      by (simp_all add: stored_as_def p_def)
    with row show ?thesis by blast
  qed
  with f show ?thesis by (auto simp: p_def)
qed

theorem empty_weather_array_unknown_witness:
  "cities ! 1 \<in> set cities
   \<and> name (cities ! 1) = ''Mumbai''
   \<and> axios_get partial_env (cities ! 1) = Response (Some (clouds_data\<lparr>data_weather := Some []\<rparr>))
   \<and> (\<exists>row\<in>set (new_rows empty_store (snd (weatherTrigger partial_env empty_store))).
         w_city row = ''Mumbai'' \<and> w_weather row = ''Unknown'')"
proof -
  have h: "cities ! 1 \<in> set cities"
    "axios_get partial_env (cities ! 1) = Response (Some (clouds_data\<lparr>data_weather := Some []\<rparr>))"
    "data_main (clouds_data\<lparr>data_weather := Some []\<rparr>) =
       Some \<lparr>temp = Some (301 / 10), feels_like = Some 33, pressure = Some (20257 / 20),
             humidity = Some 70\<rparr>"
    "data_weather (clouds_data\<lparr>data_weather := Some []\<rparr>) = Some []"
    "apiKey partial_env = Some ''key''" "''key'' \<noteq> []"
    by (simp_all add: partial_env_def cities_def clouds_data_def)
  have run: "weatherTrigger partial_env empty_store =
      (fst (weatherTrigger partial_env empty_store), snd (weatherTrigger partial_env empty_store))"
    by simp
  have n: "name (cities ! 1) = ''Mumbai''" by (simp add: cities_def)
  from empty_weather_array_unknown[OF h run]
  obtain p where p: "p_city p = name (cities ! 1)" "p_pressure p = Some (20257 / 20)"
    "p_humidity p = Some 70" "p_temperature p = Some (301 / 10)" "p_feels_like p = Some 33"
    "insert_ok partial_env p \<longrightarrow>
       (\<exists>row\<in>set (new_rows empty_store (snd (weatherTrigger partial_env empty_store))).
          stored_as partial_env p row \<and> w_city row = name (cities ! 1) \<and> w_weather row = ''Unknown'')"
    by auto
  have "insert_ok partial_env p"
    by (simp add: insert_ok_def p(1,2,3,4,5) n sql_Int_def) (simp add: partial_env_def)
  with p(6) n h(1,2) show ?thesis by auto
qed

text \<open>
  The claim as written also covers a body without any \<open>weather\<close> member. There the
  expression \<open>response.data.weather[0]\<close> throws inside the \<open>try\<close>, and the fetch
  ends like a failed one.
\<close>

theorem absent_weather_array_counterexample:
  "fetchWeatherData (cities ! 0)
     (Response (Some \<lparr> data_main = Some \<lparr>temp = Some (301 / 10), feels_like = Some 33,
                                          pressure = Some 1012, humidity = Some 70\<rparr>,
                       data_weather = None, data_dt = 1700000000 \<rparr>))
     1700000123456 = None"
  by (simp add: fetchWeatherData_def)

text \<open>
  C10. A successful insert had all four numbers and stores pressure and humidity as the
  integer parts of the fetched values (truncated towards zero: less than one away from the fetched value, and equal to it
  only when that value is a whole number), while temperature and feels-like are stored as
  fetched. The Aggregator's \<open>avg_pressure\<close> and \<open>avg_humidity\<close> are therefore the
  means of integer columns, rounded to two decimal places.
\<close>

theorem integer_pressure_humidity:
  "(insertWeatherData e p db = (True, db') \<longrightarrow>
      (\<exists>row pr hu. weather_data db' = weather_data db @ [row]
         \<and> p_pressure p = Some pr \<and> p_humidity p = Some hu
         \<and> w_pressure row = (if 0 \<le> pr then \<lfloor>pr\<rfloor> else \<lceil>pr\<rceil>)
         \<and> w_humidity row = (if 0 \<le> hu then \<lfloor>hu\<rfloor> else \<lceil>hu\<rceil>)
         \<and> \<bar>of_int (w_pressure row) - pr\<bar> < 1
         \<and> \<bar>of_int (w_humidity row) - hu\<bar> < 1
         \<and> (of_int (w_pressure row) = pr \<longleftrightarrow> pr \<in> \<int>)
         \<and> (of_int (w_humidity row) = hu \<longleftrightarrow> hu \<in> \<int>)
         \<and> p_temperature p = Some (w_temperature row)
         \<and> p_feels_like p = Some (w_feels_like row)))
   \<and> (filter (for_city d c) wd = obs \<and> obs \<noteq> [] \<longrightarrow>
      (\<exists>s. aggregationQuery tie d c wd = [s]
         \<and> rounds_to_2dp (of_int (sum_list (map w_pressure obs)) / of_nat (length obs)) (avg_pressure s)
         \<and> rounds_to_2dp (of_int (sum_list (map w_humidity obs)) / of_nat (length obs)) (avg_humidity s)))"
proof (intro conjI impI)
  assume a: "insertWeatherData e p db = (True, db')"
  from insertWeatherData_True[OF a] have ok: "insert_ok e p" .
  from insertWeatherData_ok[OF ok, of db] a obtain row where
    row: "weather_data db' = weather_data db @ [row]" "stored_as e p row"
    by auto
  from row(2) obtain pr hu where s: "p_pressure p = Some pr" "sql_Int pr = Some (w_pressure row)"
    "p_humidity p = Some hu" "sql_Int hu = Some (w_humidity row)"
    "p_temperature p = Some (w_temperature row)" "p_feels_like p = Some (w_feels_like row)"
    by (auto simp: stored_as_def split: option.splits)
  from sql_Int_Some[OF s(2)] sql_Int_Some[OF s(4)] row(1) s(1,3,5,6)
  show "\<exists>row pr hu. weather_data db' = weather_data db @ [row]
         \<and> p_pressure p = Some pr \<and> p_humidity p = Some hu
         \<and> w_pressure row = (if 0 \<le> pr then \<lfloor>pr\<rfloor> else \<lceil>pr\<rceil>)
         \<and> w_humidity row = (if 0 \<le> hu then \<lfloor>hu\<rfloor> else \<lceil>hu\<rceil>)
         \<and> \<bar>of_int (w_pressure row) - pr\<bar> < 1
         \<and> \<bar>of_int (w_humidity row) - hu\<bar> < 1
         \<and> (of_int (w_pressure row) = pr \<longleftrightarrow> pr \<in> \<int>)
         \<and> (of_int (w_humidity row) = hu \<longleftrightarrow> hu \<in> \<int>)
         \<and> p_temperature p = Some (w_temperature row)
         \<and> p_feels_like p = Some (w_feels_like row)"
    by blast
next
  assume b: "filter (for_city d c) wd = obs \<and> obs \<noteq> []"
  then have b1: "filter (for_city d c) wd = obs" and b2: "obs \<noteq> []" by simp_all
  from aggregationQuery_row[OF b1 b2, of tie] obtain s where
    s: "aggregationQuery tie d c wd = [s]"
      "avg_pressure s = ROUND_2 (mean (map (\<lambda>r. of_int (w_pressure r)) obs))"
      "avg_humidity s = ROUND_2 (mean (map (\<lambda>r. of_int (w_humidity r)) obs))"
    by blast
  have "rounds_to_2dp (of_int (sum_list (map w_pressure obs)) / of_nat (length obs)) (avg_pressure s)"
    using ROUND_2_rounds[of "mean (map (\<lambda>r. of_int (w_pressure r)) obs)"]
    by (simp add: s(2) mean_def sum_list_of_int)
  moreover have "rounds_to_2dp (of_int (sum_list (map w_humidity obs)) / of_nat (length obs)) (avg_humidity s)"
    using ROUND_2_rounds[of "mean (map (\<lambda>r. of_int (w_humidity r)) obs)"]
    by (simp add: s(3) mean_def sum_list_of_int)
  ultimately show "\<exists>s. aggregationQuery tie d c wd = [s]
         \<and> rounds_to_2dp (of_int (sum_list (map w_pressure obs)) / of_nat (length obs)) (avg_pressure s)
         \<and> rounds_to_2dp (of_int (sum_list (map w_humidity obs)) / of_nat (length obs)) (avg_humidity s)"
    using s(1) by blast
qed

theorem integer_pressure_humidity_witness:
  "fst (insertWeatherData partial_env clouds_params empty_store)
   \<and> p_pressure clouds_params = Some (20257 / 20)
   \<and> map w_pressure (weather_data (snd (insertWeatherData partial_env clouds_params empty_store))) = [1012]
   \<and> map w_temperature (weather_data (snd (insertWeatherData partial_env clouds_params empty_store))) = [301 / 10]
   \<and> (\<exists>s. aggregationQuery [] 0 ''Delhi'' (weather_data example_store) = [s]
         \<and> rounds_to_2dp (3031 / 3) (avg_pressure s)
         \<and> rounds_to_2dp 40 (avg_humidity s))"
proof -
  have run: "insertWeatherData partial_env clouds_params empty_store =
      (True, snd (insertWeatherData partial_env clouds_params empty_store))"
    by (simp add: clouds_insert)
  have obs: "filter (for_city 0 ''Delhi'') (weather_data example_store) =
     [reading 1 ''Delhi'' 20 1010 ''Clear'' 300000,
      reading 3 ''Delhi'' 21 1011 ''Haze'' 600000,
      reading 4 ''Delhi'' 20 1010 ''Haze'' 900000]
     \<and> [reading 1 ''Delhi'' 20 1010 ''Clear'' 300000,
      reading 3 ''Delhi'' 21 1011 ''Haze'' 600000,
      reading 4 ''Delhi'' 20 1010 ''Haze'' 900000] \<noteq> []"
    using example_Delhi by (simp add: example_target_date)
  from integer_pressure_humidity[of partial_env clouds_params empty_store
      "snd (insertWeatherData partial_env clouds_params empty_store)" 0 "''Delhi''"
      "weather_data example_store"
      "[reading 1 ''Delhi'' 20 1010 ''Clear'' 300000,
        reading 3 ''Delhi'' 21 1011 ''Haze'' 600000,
        reading 4 ''Delhi'' 20 1010 ''Haze'' 900000]" "[]"] run obs
  have "\<exists>s. aggregationQuery [] 0 ''Delhi'' (weather_data example_store) = [s]
         \<and> rounds_to_2dp (3031 / 3) (avg_pressure s)
         \<and> rounds_to_2dp 40 (avg_humidity s)"
    by (simp add: reading_def)
  then show ?thesis
    by (simp add: clouds_insert) (simp add: clouds_params_def)
qed

end
